theory Spec2Isabelle
  imports Complex_Main
begin

section \<open>The gefsplots scripts\<close>

text \<open>
  The package holds three command-line scripts, \<^verbatim>\<open>plot_sfc_variable.py\<close> (suffix \<open>_sfc\<close>
  below), \<^verbatim>\<open>plot_entire_atmosphere_variable.py\<close> (suffix \<open>_ea\<close>) and
  \<^verbatim>\<open>plot_halfdegree_data.py\<close> (suffix \<open>_hd\<close>). Each defines the same four functions,
  \<^verbatim>\<open>parse_arguments\<close>, \<^verbatim>\<open>get_gefs_data\<close>, \<^verbatim>\<open>create_plot\<close> and \<^verbatim>\<open>main\<close>, and each is glue
  between argparse, pandas, fsspec, xarray, monet and matplotlib.

  The embedding keeps the scripts' own control flow and literals. The libraries are not
  part of the package: what a library call returns is read from a \<open>world\<close> record, every
  call that can raise returns a sum with the error on the left, and the calls that touch the
  outside (object store, decoder, figure, file system, display) are recorded, in program
  order and with their arguments, in a list of events returned next to the result. Where a
  property depends on what a library does with its input (how argparse tells an argument
  from an option, how pandas reads a numeric date, how a label is compared with a float
  coordinate), that part of the library is written out as a definition.
\<close>

subsection \<open>Values\<close>

text \<open>
  The exceptions that end a run. The scripts catch nothing, so the first one raised is the
  outcome of \<^verbatim>\<open>main\<close>. The names are those of the specification's taxonomy; the Python
  exception behind each is:
  \<^item> \<open>InvalidArgument opt\<close>: \<^verbatim>\<open>parser.error\<close> of argparse on option \<open>opt\<close> (exit status 2),
    and the \<^verbatim>\<open>ValueError\<close> of \<^verbatim>\<open>pd.Timestamp\<close>;
  \<^item> \<open>HelpExit\<close>: the exit of argparse's built-in \<^verbatim>\<open>-h\<close>/\<^verbatim>\<open>--help\<close> action;
  \<^item> \<open>UnknownVariable v\<close>: the \<^verbatim>\<open>KeyError\<close> of \<^verbatim>\<open>ds[variable]\<close>;
  \<^item> \<open>LevelNotFound l\<close>: the \<^verbatim>\<open>KeyError\<close> of \<^verbatim>\<open>.sel(valueOfFirstFixedSurface=model_level)\<close>;
  \<^item> \<open>LevelOverflow l\<close>: the \<^verbatim>\<open>OverflowError\<close> of the same call when the label is too large
    for a double;
  \<^item> the others are raised inside fsspec, the decoder, the plotting libraries.
\<close>

datatype error =
    InvalidArgument string
  | HelpExit
  | RemoteNotFound
  | TransportError
  | DecodeError
  | UnknownVariable string
  | LevelNotFound int
  | LevelOverflow int
  | RenderError

text \<open>
  The calendar fields of a \<^verbatim>\<open>pd.Timestamp\<close>; \<^verbatim>\<open>strftime('%Y%m%d')\<close> reads no other field.
\<close>

record timestamp =
  year :: nat
  month :: nat
  day :: nat

text \<open>
  A decoded array is a horizontal field, or a stack of horizontal fields labelled by the
  values of the vertical coordinate \<^verbatim>\<open>valueOfFirstFixedSurface\<close>, which are doubles. A finite
  double is written as the rational it denotes. A dataset maps variable names to arrays.
\<close>

type_synonym grid = "rat list list"

datatype array =
    Field grid
  | Levels "(rat \<times> grid) list"

type_synonym dataset = "string \<rightharpoonup> array"

type_synonym filters = "(string \<times> int) list"

text \<open>
  A matplotlib colormap as far as the scripts touch it: its name and the colour for values
  below the lowest level; and the keyword arguments of \<^verbatim>\<open>quick_imshow\<close>. The type \<open>'f\<close>
  stands for the numbers of a levels list: the integers of the default list and whatever
  \<^verbatim>\<open>float\<close> returns, \<^verbatim>\<open>nan\<close> and \<^verbatim>\<open>inf\<close> included. The scripts never compute with them.
\<close>

record colormap =
  cmap_name :: string
  under :: "string option"

record 'f imshow_kw =
  kw_cmap :: colormap
  kw_roll_dateline :: bool
  kw_levels :: "'f list"
  kw_map_kws :: "(string \<times> bool) list"
  kw_figsize :: "nat \<times> nat"

text \<open>The calls that reach outside the process, with their arguments.\<close>

datatype 'f event =
    Open_local string bool string
  | Open_dataset string string "filters option"
  | Quick_imshow array "'f imshow_kw"
  | Set_ylim nat int int
  | Set_xlim nat int int
  | Savefig string
  | Show

text \<open>
  What the libraries answer. \<open>Timestamp_general\<close> is \<^verbatim>\<open>pd.Timestamp\<close> on a string that is
  not one of the numeric dates read below;
  \<open>open_local url anon cache\<close> is \<^verbatim>\<open>fsspec.open_local(url, s3={'anon': anon},
  filecache={'cache_storage': cache})\<close> and returns the local file name;
  \<open>open_dataset file engine filters\<close> is \<^verbatim>\<open>xr.open_dataset\<close>; \<open>quick_imshow\<close> is the monet
  accessor's method and returns an axes handle; \<open>savefig\<close> is \<^verbatim>\<open>monet.savefig\<close>, with
  \<open>None\<close> for success; \<open>py_float\<close> and \<open>py_int\<close> are the builtins \<^verbatim>\<open>float\<close> and \<^verbatim>\<open>int\<close> on a
  string, with \<open>None\<close> for \<^verbatim>\<open>ValueError\<close>.
\<close>

record 'f world =
  Timestamp_general :: "string \<Rightarrow> error + timestamp"
  open_local :: "string \<Rightarrow> bool \<Rightarrow> string \<Rightarrow> error + string"
  open_dataset :: "string \<Rightarrow> string \<Rightarrow> filters option \<Rightarrow> error + dataset"
  quick_imshow :: "array \<Rightarrow> 'f imshow_kw \<Rightarrow> error + nat"
  savefig :: "string \<Rightarrow> error option"
  py_float :: "string \<Rightarrow> 'f option"
  py_int :: "string \<Rightarrow> int option"

subsection \<open>Formatting a date: \<^verbatim>\<open>d.strftime('%Y%m%d')\<close>\<close>

definition digit_char :: "nat \<Rightarrow> char" where
  "digit_char n = ''0123456789'' ! (n mod 10)"

function str_nat :: "nat \<Rightarrow> string" where
  "str_nat n = (if n < 10 then [digit_char n] else str_nat (n div 10) @ [digit_char n])"
  by pat_completeness auto
termination
  by (relation "measure id") auto

declare str_nat.simps [simp del]

definition zfill :: "nat \<Rightarrow> string \<Rightarrow> string" where
  "zfill w s = replicate (w - length s) (CHR ''0'') @ s"

text \<open>
  \<^verbatim>\<open>%Y\<close> is the year in decimal, \<^verbatim>\<open>%m\<close> and \<^verbatim>\<open>%d\<close> are month and day zero-padded to two
  digits. (For a year below 1000 the C library decides whether \<^verbatim>\<open>%Y\<close> pads; the
  theorems below are about years of four digits.)
\<close>

definition strftime_Ymd :: "timestamp \<Rightarrow> string" where
  "strftime_Ymd d = zfill 4 (str_nat (year d)) @ zfill 2 (str_nat (month d)) @ zfill 2 (str_nat (day d))"

text \<open>Reading a digit string back, to say which number a substring denotes.\<close>

definition digit_val :: "char \<Rightarrow> nat" where
  "digit_val c = of_char c - 48"

definition is_digit :: "char \<Rightarrow> bool" where
  "is_digit c = (48 \<le> (of_char c :: nat) \<and> (of_char c :: nat) \<le> 57)"

definition nat_of_digits :: "string \<Rightarrow> nat" where
  "nat_of_digits s = foldl (\<lambda>acc c. 10 * acc + digit_val c) 0 s"

subsection \<open>Reading a date: \<^verbatim>\<open>pd.Timestamp(date_str)\<close>\<close>

text \<open>
  \<^verbatim>\<open>pd.Timestamp\<close> is a general parser of dates and times. Two of the layouts it reads are
  written out here: ten characters with two digits, a dash, two digits, a dash and four
  digits, read month first (\<^verbatim>\<open>MM-DD-YYYY\<close>, the layout the scripts document), and ten
  characters with four digits, a dash, two digits, a dash and two digits, read as the
  ISO 8601 date \<^verbatim>\<open>YYYY-MM-DD\<close>. Both are read only for a day that exists in the calendar, the
  month-first layout only with a month up to 12 (pandas tries day first otherwise), and only
  for the years 1678 to 2261, which every version of pandas represents. What pandas makes of
  any other string is left to the world.
\<close>

definition leap_year :: "nat \<Rightarrow> bool" where
  "leap_year y = (y mod 4 = 0 \<and> (y mod 100 \<noteq> 0 \<or> y mod 400 = 0))"

definition days_in_month :: "nat \<Rightarrow> nat \<Rightarrow> nat" where
  "days_in_month y m =
     (if m = 2 then (if leap_year y then 29 else 28)
      else if m = 4 \<or> m = 6 \<or> m = 9 \<or> m = 11 then 30
      else 31)"

definition checked_date :: "nat \<Rightarrow> nat \<Rightarrow> nat \<Rightarrow> timestamp option" where
  "checked_date y m d =
     (if 1678 \<le> y \<and> y \<le> 2261 \<and> 1 \<le> m \<and> m \<le> 12 \<and> 1 \<le> d \<and> d \<le> days_in_month y m
      then Some \<lparr>year = y, month = m, day = d\<rparr> else None)"

definition mm_dd_yyyy :: "string \<Rightarrow> bool" where
  "mm_dd_yyyy s =
     (length s = 10 \<and> s ! 2 = CHR ''-'' \<and> s ! 5 = CHR ''-'' \<and>
      list_all is_digit (take 2 s) \<and> list_all is_digit (take 2 (drop 3 s)) \<and>
      list_all is_digit (drop 6 s))"

definition yyyy_mm_dd :: "string \<Rightarrow> bool" where
  "yyyy_mm_dd s =
     (length s = 10 \<and> s ! 4 = CHR ''-'' \<and> s ! 7 = CHR ''-'' \<and>
      list_all is_digit (take 4 s) \<and> list_all is_digit (take 2 (drop 5 s)) \<and>
      list_all is_digit (drop 8 s))"

definition numeric_date :: "string \<Rightarrow> timestamp option" where
  "numeric_date s =
     (if mm_dd_yyyy s then
        checked_date (nat_of_digits (drop 6 s)) (nat_of_digits (take 2 s))
          (nat_of_digits (take 2 (drop 3 s)))
      else if yyyy_mm_dd s then
        checked_date (nat_of_digits (take 4 s)) (nat_of_digits (take 2 (drop 5 s)))
          (nat_of_digits (drop 8 s))
      else None)"

definition Timestamp :: "'f world \<Rightarrow> string \<Rightarrow> error + timestamp" where
  "Timestamp w s = (case numeric_date s of Some d \<Rightarrow> Inr d | None \<Rightarrow> Timestamp_general w s)"

subsection \<open>The command line: \<^verbatim>\<open>parse_arguments\<close>\<close>

text \<open>
  The command line is taken as argparse splits it: a list, in command-line order, of option
  occurrences, each the option string (abbreviations resolved) with the argument strings
  that argparse attributes to it, which are the strings that follow it up to the next string
  it takes for an option. argparse handles the occurrences from left to right; the first
  error ends the process, and a later occurrence of an option overwrites the value stored by
  an earlier one.
\<close>

type_synonym occurrence = "string \<times> string list"

record 'f namespace =
  args_date :: string
  args_cycle :: string
  args_variable :: string
  args_levels :: "'f list"
  args_output :: string

record 'f namespace_hd = "'f namespace" +
  args_model_level :: int

text \<open>
  Which strings argparse takes for an argument and which for an option (its
  \<^verbatim>\<open>_parse_optional\<close>). A string is an argument when it is empty, does not start with a dash,
  or is a lone dash. A string that starts with a dash is an option when it selects a declared
  option string: behind two dashes, when the part before the first \<^verbatim>\<open>=\<close> is the beginning of
  one (this covers the option itself, its abbreviations, \<^verbatim>\<open>--opt=value\<close> and the bare
  \<^verbatim>\<open>--\<close>); behind one dash, when its first two characters are one, or it is the beginning of
  one. Any other string that starts with a dash is an argument only if it looks like a
  negative number (\<^verbatim>\<open>-\<close>, digits, or \<^verbatim>\<open>-\<close>, optional digits, a point, digits; a final newline
  is overlooked) or contains a space; so \<^verbatim>\<open>-1\<close> and \<^verbatim>\<open>-.5\<close> are arguments and \<^verbatim>\<open>-1e3\<close>,
  \<^verbatim>\<open>-inf\<close> and \<^verbatim>\<open>-1.\<close> are options. Digits are the ten ASCII digits.
\<close>

definition negative_number :: "string \<Rightarrow> bool" where
  "negative_number s =
     (case s of
        [] \<Rightarrow> False
      | c # cs \<Rightarrow>
          c = CHR ''-'' \<and>
          (let body = (if cs \<noteq> [] \<and> last cs = CHR 0x0A then butlast cs else cs);
               rest = dropWhile is_digit body
           in (takeWhile is_digit body \<noteq> [] \<and> rest = []) \<or>
              (case rest of
                 [] \<Rightarrow> False
               | p # fp \<Rightarrow> p = CHR ''.'' \<and> fp \<noteq> [] \<and> list_all is_digit fp)))"

definition option_matches :: "string list \<Rightarrow> string \<Rightarrow> string list" where
  "option_matches opts s =
     (if take 2 s = ''--'' then
        filter (\<lambda>opt. take (length (takeWhile (\<lambda>c. c \<noteq> CHR ''='') s)) opt
                        = takeWhile (\<lambda>c. c \<noteq> CHR ''='') s) opts
      else filter (\<lambda>opt. opt = take 2 s \<or> take (length s) opt = s) opts)"

definition is_argument :: "string list \<Rightarrow> string \<Rightarrow> bool" where
  "is_argument opts s =
     (case s of
        [] \<Rightarrow> True
      | c # cs \<Rightarrow>
          if c \<noteq> CHR ''-'' \<or> cs = [] then True
          else option_matches opts s = [] \<and> (negative_number s \<or> CHR '' '' \<in> set s))"

text \<open>The option strings of the parsers; \<^verbatim>\<open>-h\<close> and \<^verbatim>\<open>--help\<close> are argparse's own.\<close>

definition option_strings :: "string list" where
  "option_strings =
     [''-h'', ''--help'', ''--date'', ''--cycle'', ''--variable'', ''--levels'', ''--output'']"

definition option_strings_hd :: "string list" where
  "option_strings_hd = option_strings @ [''--model_level'']"

text \<open>
  An option declared without \<^verbatim>\<open>nargs\<close> takes exactly one argument string.
\<close>

definition one_argument :: "string list \<Rightarrow> string \<Rightarrow> string list \<Rightarrow> error + string" where
  "one_argument opts opt vs =
     (case vs of
        [v] \<Rightarrow> if is_argument opts v then Inr v else Inl (InvalidArgument opt)
      | _ \<Rightarrow> Inl (InvalidArgument opt))"

text \<open>
  \<^verbatim>\<open>type=float, nargs='+'\<close>: the option takes the argument strings that follow it, at least
  one, each converted by \<^verbatim>\<open>float\<close>; the converted values are stored in the order given. A
  string behind them that is no argument is not the option's: the command line that spells
  such an occurrence out is one that argparse splits otherwise, and it is refused here.
\<close>

fun convert_all :: "(string \<Rightarrow> 'a option) \<Rightarrow> string \<Rightarrow> string list \<Rightarrow> error + 'a list" where
  "convert_all conv opt [] = Inr []"
| "convert_all conv opt (v # vs) =
     (case conv v of
        None \<Rightarrow> Inl (InvalidArgument opt)
      | Some x \<Rightarrow> (case convert_all conv opt vs of Inl e \<Rightarrow> Inl e | Inr xs \<Rightarrow> Inr (x # xs)))"

definition float_arguments ::
  "'f world \<Rightarrow> string list \<Rightarrow> string \<Rightarrow> string list \<Rightarrow> error + 'f list" where
  "float_arguments w opts opt vs =
     (if takeWhile (is_argument opts) vs = [] then Inl (InvalidArgument opt)
      else
        (case convert_all (py_float w) opt (takeWhile (is_argument opts) vs) of
           Inl e \<Rightarrow> Inl e
         | Inr xs \<Rightarrow>
             (case dropWhile (is_argument opts) vs of
                [] \<Rightarrow> Inr xs
              | v # rest \<Rightarrow> Inl (InvalidArgument v))))"

text \<open>
  One occurrence of one of the five options that all three scripts declare with the same
  \<^verbatim>\<open>add_argument\<close> calls (only the default of \<^verbatim>\<open>--variable\<close> differs, and a default plays
  no part here). \<open>opts\<close> are the option strings of the parser at hand.
\<close>

fun take_action ::
  "'f world \<Rightarrow> string list \<Rightarrow> ('f, 'a) namespace_scheme \<Rightarrow> occurrence
     \<Rightarrow> error + ('f, 'a) namespace_scheme" where
  "take_action w opts ns (opt, vs) =
     (if opt = ''--date'' then
        (case one_argument opts opt vs of Inl e \<Rightarrow> Inl e | Inr v \<Rightarrow> Inr (ns\<lparr>args_date := v\<rparr>))
      else if opt = ''--cycle'' then
        (case one_argument opts opt vs of
           Inl e \<Rightarrow> Inl e
         | Inr v \<Rightarrow>
             if v \<in> set [''00'', ''06'', ''12'', ''18''] then Inr (ns\<lparr>args_cycle := v\<rparr>)
             else Inl (InvalidArgument opt))
      else if opt = ''--variable'' then
        (case one_argument opts opt vs of Inl e \<Rightarrow> Inl e | Inr v \<Rightarrow> Inr (ns\<lparr>args_variable := v\<rparr>))
      else if opt = ''--levels'' then
        (case float_arguments w opts opt vs of Inl e \<Rightarrow> Inl e | Inr fs \<Rightarrow> Inr (ns\<lparr>args_levels := fs\<rparr>))
      else if opt = ''--output'' then
        (case one_argument opts opt vs of Inl e \<Rightarrow> Inl e | Inr v \<Rightarrow> Inr (ns\<lparr>args_output := v\<rparr>))
      else if opt = ''-h'' \<or> opt = ''--help'' then Inl HelpExit
      else Inl (InvalidArgument opt))"

text \<open>The half-degree script declares \<^verbatim>\<open>--model_level\<close> with \<^verbatim>\<open>type=int\<close> as well.\<close>

fun take_action_hd :: "'f world \<Rightarrow> 'f namespace_hd \<Rightarrow> occurrence \<Rightarrow> error + 'f namespace_hd" where
  "take_action_hd w ns (opt, vs) =
     (if opt = ''--model_level'' then
        (case one_argument option_strings_hd opt vs of
           Inl e \<Rightarrow> Inl e
         | Inr v \<Rightarrow>
             (case py_int w v of
                None \<Rightarrow> Inl (InvalidArgument opt)
              | Some i \<Rightarrow> Inr (ns\<lparr>args_model_level := i\<rparr>)))
      else take_action w option_strings_hd ns (opt, vs))"

fun parse_args :: "('ns \<Rightarrow> occurrence \<Rightarrow> error + 'ns) \<Rightarrow> 'ns \<Rightarrow> occurrence list \<Rightarrow> error + 'ns" where
  "parse_args act ns [] = Inr ns"
| "parse_args act ns (x # xs) =
     (case act ns x of Inl e \<Rightarrow> Inl e | Inr ns' \<Rightarrow> parse_args act ns' xs)"

text \<open>The three \<^verbatim>\<open>parse_arguments\<close>: the namespace starts from the declared defaults.\<close>

definition parse_arguments_sfc :: "'f::numeral world \<Rightarrow> occurrence list \<Rightarrow> error + 'f namespace" where
  "parse_arguments_sfc w argv =
     parse_args (take_action w option_strings)
       \<lparr>args_date = ''01-22-2025'', args_cycle = ''12'', args_variable = ''sfc_tot_pm25'',
        args_levels = [1, 2, 4, 8, 16, 32, 64, 128], args_output = ''gefs_plot.jpg''\<rparr> argv"

definition parse_arguments_ea :: "'f::numeral world \<Rightarrow> occurrence list \<Rightarrow> error + 'f namespace" where
  "parse_arguments_ea w argv =
     parse_args (take_action w option_strings)
       \<lparr>args_date = ''01-22-2025'', args_cycle = ''12'', args_variable = ''totAOD550'',
        args_levels = [1, 2, 4, 8, 16, 32, 64, 128], args_output = ''gefs_plot.jpg''\<rparr> argv"

definition parse_arguments_hd :: "'f::numeral world \<Rightarrow> occurrence list \<Rightarrow> error + 'f namespace_hd" where
  "parse_arguments_hd w argv =
     parse_args (take_action_hd w)
       \<lparr>args_date = ''01-22-2025'', args_cycle = ''12'', args_variable = ''sfc_tot_pm25'',
        args_levels = [1, 2, 4, 8, 16, 32, 64, 128], args_output = ''gefs_plot.jpg'',
        args_model_level = 1\<rparr> argv"

subsection \<open>Fetching: \<^verbatim>\<open>get_gefs_data\<close>\<close>

text \<open>
  The parameter \<open>variable\<close> is in the signature of all three functions and is read by none.
\<close>

definition get_gefs_data_sfc ::
  "'f world \<Rightarrow> string \<Rightarrow> string \<Rightarrow> string \<Rightarrow> 'f event list \<times> (error + dataset)" where
  "get_gefs_data_sfc w date_str cycle variable =
     (case Timestamp w date_str of
        Inl e \<Rightarrow> ([], Inl e)
      | Inr d \<Rightarrow>
          let yyyymmdd = strftime_Ymd d;
              base_url = ''simplecache::s3://noaa-gefs-pds/gefs.'' @ yyyymmdd @ ''/'' @ cycle
                @ ''/chem/pgrb2ap25/gefs.chem.t'' @ cycle @ ''z.a2d_0p25.f018.grib2''
          in (case open_local w base_url True ''/tmp/files'' of
                Inl e \<Rightarrow> ([Open_local base_url True ''/tmp/files''], Inl e)
              | Inr file \<Rightarrow>
                  let filters = [(''typeOfFirstFixedSurface'', 1),
                                 (''productDefinitionTemplateNumber'', 48)]
                  in ([Open_local base_url True ''/tmp/files'',
                       Open_dataset file ''grib2io'' (Some filters)],
                      open_dataset w file ''grib2io'' (Some filters))))"

definition get_gefs_data_ea ::
  "'f world \<Rightarrow> string \<Rightarrow> string \<Rightarrow> string \<Rightarrow> 'f event list \<times> (error + dataset)" where
  "get_gefs_data_ea w date_str cycle variable =
     (case Timestamp w date_str of
        Inl e \<Rightarrow> ([], Inl e)
      | Inr d \<Rightarrow>
          let yyyymmdd = strftime_Ymd d;
              base_url = ''simplecache::s3://noaa-gefs-pds/gefs.'' @ yyyymmdd @ ''/'' @ cycle
                @ ''/chem/pgrb2ap25/gefs.chem.t'' @ cycle @ ''z.a2d_0p25.f018.grib2''
          in (case open_local w base_url True ''/tmp/files'' of
                Inl e \<Rightarrow> ([Open_local base_url True ''/tmp/files''], Inl e)
              | Inr file \<Rightarrow>
                  let filters = [(''typeOfFirstFixedSurface'', 10),
                                 (''productDefinitionTemplateNumber'', 48)]
                  in ([Open_local base_url True ''/tmp/files'',
                       Open_dataset file ''grib2io'' (Some filters)],
                      open_dataset w file ''grib2io'' (Some filters))))"

definition get_gefs_data_hd ::
  "'f world \<Rightarrow> string \<Rightarrow> string \<Rightarrow> string \<Rightarrow> 'f event list \<times> (error + dataset)" where
  "get_gefs_data_hd w date_str cycle variable =
     (case Timestamp w date_str of
        Inl e \<Rightarrow> ([], Inl e)
      | Inr d \<Rightarrow>
          let yyyymmdd = strftime_Ymd d;
              base_url = ''simplecache::s3://noaa-gefs-pds/gefs.'' @ yyyymmdd @ ''/'' @ cycle
                @ ''/chem/pgrb2ap5/gefs.chem.t'' @ cycle @ ''z.a3d_0p25.f018.grib2''
          in (case open_local w base_url True ''/tmp/files'' of
                Inl e \<Rightarrow> ([Open_local base_url True ''/tmp/files''], Inl e)
              | Inr file \<Rightarrow>
                  ([Open_local base_url True ''/tmp/files'',
                    Open_dataset file ''grib2io'' None],
                   open_dataset w file ''grib2io'' None)))"

subsection \<open>Selecting and rendering: \<^verbatim>\<open>create_plot\<close>\<close>

text \<open>
  \<^verbatim>\<open>ds[variable]\<close> raises \<^verbatim>\<open>KeyError\<close> when the dataset has no such name.
  \<^verbatim>\<open>.sel(valueOfFirstFixedSurface=model_level)\<close> is called without \<^verbatim>\<open>method\<close>, so the label is
  looked up by equality. The label is an integer and the coordinate holds doubles: the label
  is first converted to a double, rounding to the nearest with ties to the even significand
  (an integer of at most 53 bits is kept as it is), and an integer that rounds beyond the
  largest double raises \<^verbatim>\<open>OverflowError\<close>. Then the call raises \<^verbatim>\<open>KeyError\<close> when the array
  has no such coordinate or no coordinate value equal to the converted label, drops the
  dimension when one value is equal, and keeps the matching part of the stack when several
  are.
\<close>

function bit_length :: "nat \<Rightarrow> nat" where
  "bit_length n = (if n = 0 then 0 else Suc (bit_length (n div 2)))"
  by pat_completeness auto
termination
  by (relation "measure id") auto

declare bit_length.simps [simp del]

definition float64_of_int :: "int \<Rightarrow> rat option" where
  "float64_of_int i =
     (let m = nat \<bar>i\<bar> in
      if m \<le> 2 ^ 53 then Some (of_int i)
      else
        let e = bit_length m - 53;
            q = m div 2 ^ e;
            r = m mod 2 ^ e;
            half = 2 ^ (e - 1);
            q' = (if half < r \<or> (r = half \<and> odd q) then q + 1 else q);
            v = q' * 2 ^ e
        in if 2 ^ 1024 \<le> v then None
           else Some (if i < 0 then - of_nat v else of_nat v))"

definition sel :: "array \<Rightarrow> int \<Rightarrow> error + array" where
  "sel a lev =
     (case float64_of_int lev of
        None \<Rightarrow> Inl (LevelOverflow lev)
      | Some x \<Rightarrow>
          (case a of
             Field g \<Rightarrow> Inl (LevelNotFound lev)
           | Levels ps \<Rightarrow>
               (case filter (\<lambda>(v, g). v = x) ps of
                  [] \<Rightarrow> Inl (LevelNotFound lev)
                | [(v, g)] \<Rightarrow> Inr (Field g)
                | ms \<Rightarrow> Inr (Levels ms))))"

text \<open>
  The two quarter-degree scripts have the same \<^verbatim>\<open>create_plot\<close>. The colormap is fetched and
  changed in memory first; the first call that can fail is the lookup of the variable.
\<close>

definition create_plot_sfc ::
  "'f world \<Rightarrow> dataset \<Rightarrow> string \<Rightarrow> 'f list \<Rightarrow> string \<Rightarrow> 'f event list \<times> (error + unit)" where
  "create_plot_sfc w ds variable levels output_file =
     (let cmap = \<lparr>cmap_name = ''turbo'', under = None\<rparr>;
          cmap = cmap\<lparr>under := Some ''white''\<rparr>
      in case ds variable of
           None \<Rightarrow> ([], Inl (UnknownVariable variable))
         | Some a \<Rightarrow>
             let kw = \<lparr>kw_cmap = cmap, kw_roll_dateline = True, kw_levels = levels,
                       kw_map_kws = [(''states'', True)], kw_figsize = (10, 10)\<rparr>
             in (case quick_imshow w a kw of
                   Inl e \<Rightarrow> ([Quick_imshow a kw], Inl e)
                 | Inr ax \<Rightarrow>
                     (case savefig w output_file of
                        Some e \<Rightarrow>
                          ([Quick_imshow a kw, Set_ylim ax 10 50, Set_xlim ax (- 130) (- 90),
                            Savefig output_file], Inl e)
                      | None \<Rightarrow>
                          ([Quick_imshow a kw, Set_ylim ax 10 50, Set_xlim ax (- 130) (- 90),
                            Savefig output_file, Show], Inr ()))))"

definition create_plot_ea ::
  "'f world \<Rightarrow> dataset \<Rightarrow> string \<Rightarrow> 'f list \<Rightarrow> string \<Rightarrow> 'f event list \<times> (error + unit)" where
  "create_plot_ea w ds variable levels output_file =
     (let cmap = \<lparr>cmap_name = ''turbo'', under = None\<rparr>;
          cmap = cmap\<lparr>under := Some ''white''\<rparr>
      in case ds variable of
           None \<Rightarrow> ([], Inl (UnknownVariable variable))
         | Some a \<Rightarrow>
             let kw = \<lparr>kw_cmap = cmap, kw_roll_dateline = True, kw_levels = levels,
                       kw_map_kws = [(''states'', True)], kw_figsize = (10, 10)\<rparr>
             in (case quick_imshow w a kw of
                   Inl e \<Rightarrow> ([Quick_imshow a kw], Inl e)
                 | Inr ax \<Rightarrow>
                     (case savefig w output_file of
                        Some e \<Rightarrow>
                          ([Quick_imshow a kw, Set_ylim ax 10 50, Set_xlim ax (- 130) (- 90),
                            Savefig output_file], Inl e)
                      | None \<Rightarrow>
                          ([Quick_imshow a kw, Set_ylim ax 10 50, Set_xlim ax (- 130) (- 90),
                            Savefig output_file, Show], Inr ()))))"

text \<open>The half-degree script selects the vertical level between lookup and rendering.\<close>

definition create_plot_hd ::
  "'f world \<Rightarrow> dataset \<Rightarrow> string \<Rightarrow> int \<Rightarrow> 'f list \<Rightarrow> string \<Rightarrow> 'f event list \<times> (error + unit)" where
  "create_plot_hd w ds variable model_level levels output_file =
     (let cmap = \<lparr>cmap_name = ''turbo'', under = None\<rparr>;
          cmap = cmap\<lparr>under := Some ''white''\<rparr>
      in case ds variable of
           None \<Rightarrow> ([], Inl (UnknownVariable variable))
         | Some a3 \<Rightarrow>
             (case sel a3 model_level of
                Inl e \<Rightarrow> ([], Inl e)
              | Inr a \<Rightarrow>
                  let kw = \<lparr>kw_cmap = cmap, kw_roll_dateline = True, kw_levels = levels,
                            kw_map_kws = [(''states'', True)], kw_figsize = (10, 10)\<rparr>
                  in (case quick_imshow w a kw of
                        Inl e \<Rightarrow> ([Quick_imshow a kw], Inl e)
                      | Inr ax \<Rightarrow>
                          (case savefig w output_file of
                             Some e \<Rightarrow>
                               ([Quick_imshow a kw, Set_ylim ax 10 50, Set_xlim ax (- 130) (- 90),
                                 Savefig output_file], Inl e)
                           | None \<Rightarrow>
                               ([Quick_imshow a kw, Set_ylim ax 10 50, Set_xlim ax (- 130) (- 90),
                                 Savefig output_file, Show], Inr ())))))"

subsection \<open>The pipeline: \<^verbatim>\<open>main\<close>\<close>

definition main_sfc :: "'f::numeral world \<Rightarrow> occurrence list \<Rightarrow> 'f event list \<times> (error + unit)" where
  "main_sfc w argv =
     (case parse_arguments_sfc w argv of
        Inl e \<Rightarrow> ([], Inl e)
      | Inr args \<Rightarrow>
          (case get_gefs_data_sfc w (args_date args) (args_cycle args) (args_variable args) of
             (t1, Inl e) \<Rightarrow> (t1, Inl e)
           | (t1, Inr ds) \<Rightarrow>
               (case create_plot_sfc w ds (args_variable args) (args_levels args) (args_output args) of
                  (t2, r) \<Rightarrow> (t1 @ t2, r))))"

definition main_ea :: "'f::numeral world \<Rightarrow> occurrence list \<Rightarrow> 'f event list \<times> (error + unit)" where
  "main_ea w argv =
     (case parse_arguments_ea w argv of
        Inl e \<Rightarrow> ([], Inl e)
      | Inr args \<Rightarrow>
          (case get_gefs_data_ea w (args_date args) (args_cycle args) (args_variable args) of
             (t1, Inl e) \<Rightarrow> (t1, Inl e)
           | (t1, Inr ds) \<Rightarrow>
               (case create_plot_ea w ds (args_variable args) (args_levels args) (args_output args) of
                  (t2, r) \<Rightarrow> (t1 @ t2, r))))"

definition main_hd :: "'f::numeral world \<Rightarrow> occurrence list \<Rightarrow> 'f event list \<times> (error + unit)" where
  "main_hd w argv =
     (case parse_arguments_hd w argv of
        Inl e \<Rightarrow> ([], Inl e)
      | Inr args \<Rightarrow>
          (case get_gefs_data_hd w (args_date args) (args_cycle args) (args_variable args) of
             (t1, Inl e) \<Rightarrow> (t1, Inl e)
           | (t1, Inr ds) \<Rightarrow>
               (case create_plot_hd w ds (args_variable args) (args_model_level args)
                       (args_levels args) (args_output args) of
                  (t2, r) \<Rightarrow> (t1 @ t2, r))))"

subsection \<open>Reading a run\<close>

text \<open>
  Projections of the event list: the URLs handed to \<^verbatim>\<open>fsspec.open_local\<close>, the
  \<^verbatim>\<open>filters\<close> arguments handed to \<^verbatim>\<open>xr.open_dataset\<close>, the \<^verbatim>\<open>levels\<close> handed to
  \<^verbatim>\<open>quick_imshow\<close>, and the paths handed to \<^verbatim>\<open>monet.savefig\<close>.
\<close>

fun remote_keys :: "'f event list \<Rightarrow> string list" where
  "remote_keys [] = []"
| "remote_keys (Open_local url anon cache # t) = url # remote_keys t"
| "remote_keys (ev # t) = remote_keys t"

fun decode_filters :: "'f event list \<Rightarrow> filters option list" where
  "decode_filters [] = []"
| "decode_filters (Open_dataset file engine fs # t) = fs # decode_filters t"
| "decode_filters (ev # t) = decode_filters t"

fun rendered_levels :: "'f event list \<Rightarrow> 'f list list" where
  "rendered_levels [] = []"
| "rendered_levels (Quick_imshow a kw # t) = kw_levels kw # rendered_levels t"
| "rendered_levels (ev # t) = rendered_levels t"



text \<open>A date whose year has four digits and whose month and day are in calendar range.\<close>

definition calendar_date :: "timestamp \<Rightarrow> bool" where
  "calendar_date d =
     (1000 \<le> year d \<and> year d \<le> 9999 \<and> 1 \<le> month d \<and> month d \<le> 12 \<and> 1 \<le> day d \<and> day d \<le> 31)"

subsection \<open>A sample world\<close>

text \<open>
  One world in which the model can be evaluated at concrete inputs. Its numbers are
  rationals and its number conversions read unsigned decimal integer literals, on which
  \<^verbatim>\<open>float\<close> and \<^verbatim>\<open>int\<close> agree with them; it reads no date beyond the numeric ones; its store
  serves one dataset with a surface field, a column field and a three-level stack; its
  renderer draws plain fields only.
\<close>

definition float_dec :: "string \<Rightarrow> rat option" where
  "float_dec s = (if s \<noteq> [] \<and> list_all is_digit s then Some (of_nat (nat_of_digits s)) else None)"

definition int_dec :: "string \<Rightarrow> int option" where
  "int_dec s = (if s \<noteq> [] \<and> list_all is_digit s then Some (int (nat_of_digits s)) else None)"

definition sample_dataset :: dataset where
  "sample_dataset =
     [''sfc_tot_pm25'' \<mapsto> Field [[3]],
      ''totAOD550'' \<mapsto> Field [[1 / 2]],
      ''du_pm2'' \<mapsto> Levels [(2, [[1]]), (5, [[2]]), (10, [[3]])]]"

definition sample_world :: "rat world" where
  "sample_world =
     \<lparr>Timestamp_general = (\<lambda>s. Inl (InvalidArgument ''date'')),
      open_local = (\<lambda>url anon cache. Inr (cache @ ''/gefs.grib2'')),
      open_dataset = (\<lambda>file engine fs. Inr sample_dataset),
      quick_imshow = (\<lambda>a kw. case a of Field g \<Rightarrow> Inr 0 | Levels ps \<Rightarrow> Inl RenderError),
      savefig = (\<lambda>path. None),
      py_float = float_dec,
      py_int = int_dec\<rparr>"

section \<open>Properties\<close>


subsection \<open>Decimal digits\<close>

lemma below_ten: "n < 10 \<Longrightarrow> n \<in> {0, 1, 2, 3, 4, 5, 6, 7, 8, 9 :: nat}"
  by auto

lemma digit_val_digit_char: "n < 10 \<Longrightarrow> digit_val (digit_char n) = n"
  using below_ten [of n] by (auto simp: digit_val_def digit_char_def)

lemma is_digit_digit_char: "is_digit (digit_char n)"
proof -
  have "n mod 10 < 10" by simp
  from below_ten [OF this] show ?thesis
    by (auto simp: is_digit_def digit_char_def)
qed

lemma digit_char_mod: "digit_char (n mod 10) = digit_char n"
  by (simp add: digit_char_def)

lemma str_nat_1: "n < 10 \<Longrightarrow> str_nat n = [digit_char n]"
  by (subst str_nat.simps) simp

lemma str_nat_2:
  "10 \<le> n \<Longrightarrow> n < 100 \<Longrightarrow> str_nat n = [digit_char (n div 10), digit_char n]"
  by (subst str_nat.simps) (simp add: str_nat_1)

lemma str_nat_3:
  "100 \<le> n \<Longrightarrow> n < 1000 \<Longrightarrow>
   str_nat n = [digit_char (n div 100), digit_char (n div 10), digit_char n]"
  by (subst str_nat.simps) (simp add: str_nat_2 div_mult2_eq[symmetric])

lemma str_nat_4:
  "1000 \<le> n \<Longrightarrow> n < 10000 \<Longrightarrow>
   str_nat n = [digit_char (n div 1000), digit_char (n div 100), digit_char (n div 10), digit_char n]"
  by (subst str_nat.simps) (simp add: str_nat_3 div_mult2_eq[symmetric])

lemma zfill_2:
  "n < 100 \<Longrightarrow> zfill 2 (str_nat n) = [digit_char (n div 10), digit_char n]"
  by (cases "n < 10") (simp_all add: zfill_def str_nat_1 str_nat_2 digit_char_def)

lemma zfill_4:
  "1000 \<le> n \<Longrightarrow> n < 10000 \<Longrightarrow>
   zfill 4 (str_nat n) = [digit_char (n div 1000), digit_char (n div 100), digit_char (n div 10), digit_char n]"
  by (simp add: zfill_def str_nat_4)

lemma nat_of_digits_2: "a < 10 \<Longrightarrow> b < 10 \<Longrightarrow> nat_of_digits [digit_char a, digit_char b] = 10 * a + b"
  by (simp add: nat_of_digits_def digit_val_digit_char)

lemma nat_of_digits_4: "a < 10 \<Longrightarrow> b < 10 \<Longrightarrow> c < 10 \<Longrightarrow> d < 10 \<Longrightarrow> nat_of_digits [digit_char a, digit_char b, digit_char c, digit_char d] = 1000 * a + 100 * b + 10 * c + d"
  by (simp add: nat_of_digits_def digit_val_digit_char)

lemma two_digits: "n < 100 \<Longrightarrow> nat_of_digits [digit_char (n div 10), digit_char n] = n"
proof -
  assume n: "n < 100"
  have "nat_of_digits [digit_char (n div 10), digit_char (n mod 10)] = 10 * (n div 10) + n mod 10"
    using n by (intro nat_of_digits_2) auto
  then show ?thesis by (simp add: digit_char_mod)
qed

lemma decimal_expansion_4:
  "1000 * (n div 1000) + 100 * (n div 100 mod 10) + 10 * (n div 10 mod 10) + n mod 10 = (n::nat)"
proof -
  define q1 where "q1 = n div 10"
  define r0 where "r0 = n mod 10"
  define q2 where "q2 = q1 div 10"
  define r1 where "r1 = q1 mod 10"
  define q3 where "q3 = q2 div 10"
  define r2 where "r2 = q2 mod 10"
  have e0: "n = 10 * q1 + r0" by (simp add: q1_def r0_def)
  have e1: "q1 = 10 * q2 + r1" by (simp add: q2_def r1_def)
  have e2: "q2 = 10 * q3 + r2" by (simp add: q3_def r2_def)
  have d2: "n div 100 = q2" by (simp add: q2_def q1_def div_mult2_eq[symmetric])
  have d3: "n div 1000 = q3" by (simp add: q3_def q2_def q1_def div_mult2_eq[symmetric])
  have "1000 * q3 + 100 * r2 + 10 * r1 + r0 = n"
    using e0 e1 e2 by linarith
  then show ?thesis
    by (simp only: d2 d3 r2_def r1_def r0_def q1_def d2[unfolded q2_def q1_def, symmetric])
qed

lemma four_digits: "n < 10000 \<Longrightarrow> nat_of_digits [digit_char (n div 1000), digit_char (n div 100), digit_char (n div 10), digit_char n] = n"
proof -
  assume n: "n < 10000"
  have "nat_of_digits [digit_char (n div 1000), digit_char (n div 100 mod 10), digit_char (n div 10 mod 10), digit_char (n mod 10)]
      = 1000 * (n div 1000) + 100 * (n div 100 mod 10) + 10 * (n div 10 mod 10) + n mod 10"
    using n by (intro nat_of_digits_4) auto
  then show ?thesis by (simp only: digit_char_mod decimal_expansion_4)
qed

lemma strftime_shape:
  assumes "calendar_date d"
  shows "strftime_Ymd d = [digit_char (year d div 1000), digit_char (year d div 100), digit_char (year d div 10), digit_char (year d),
     digit_char (month d div 10), digit_char (month d), digit_char (day d div 10), digit_char (day d)]"
  using assms by (simp add: strftime_Ymd_def calendar_date_def zfill_2 zfill_4)

lemma strftime_props:
  assumes "calendar_date d"
  shows "length (strftime_Ymd d) = 8" "list_all is_digit (strftime_Ymd d)"
    "nat_of_digits (take 4 (strftime_Ymd d)) = year d"
    "nat_of_digits (take 2 (drop 4 (strftime_Ymd d))) = month d"
    "nat_of_digits (drop 6 (strftime_Ymd d)) = day d"
  using assms by (simp_all add: strftime_shape is_digit_digit_char two_digits four_digits calendar_date_def)

subsection \<open>The URL opened by \<^verbatim>\<open>get_gefs_data\<close>\<close>

lemma sfc_keys:
  "Timestamp w date_str = Inr d \<Longrightarrow>
   remote_keys (fst (get_gefs_data_sfc w date_str cycle variable)) =
     [''simplecache::s3://noaa-gefs-pds/gefs.'' @ strftime_Ymd d @ ''/'' @ cycle
        @ ''/chem/pgrb2ap25/gefs.chem.t'' @ cycle @ ''z.a2d_0p25.f018.grib2'']"
  by (simp add: get_gefs_data_sfc_def Let_def split: sum.split)

lemma ea_keys:
  "Timestamp w date_str = Inr d \<Longrightarrow>
   remote_keys (fst (get_gefs_data_ea w date_str cycle variable)) =
     [''simplecache::s3://noaa-gefs-pds/gefs.'' @ strftime_Ymd d @ ''/'' @ cycle
        @ ''/chem/pgrb2ap25/gefs.chem.t'' @ cycle @ ''z.a2d_0p25.f018.grib2'']"
  by (simp add: get_gefs_data_ea_def Let_def split: sum.split)

lemma hd_keys:
  "Timestamp w date_str = Inr d \<Longrightarrow>
   remote_keys (fst (get_gefs_data_hd w date_str cycle variable)) =
     [''simplecache::s3://noaa-gefs-pds/gefs.'' @ strftime_Ymd d @ ''/'' @ cycle
        @ ''/chem/pgrb2ap5/gefs.chem.t'' @ cycle @ ''z.a3d_0p25.f018.grib2'']"
  by (simp add: get_gefs_data_hd_def Let_def split: sum.split)

lemma cycle_length: "cycle \<in> set [''00'', ''06'', ''12'', ''18''] \<Longrightarrow> length cycle = 2"
  by auto

lemma reads_month_first_example:
  "Timestamp w ''01-22-2025'' = Inr \<lparr>year = 2025, month = 1, day = 22\<rparr>"
  by (simp add: Timestamp_def numeric_date_def mm_dd_yyyy_def is_digit_def nat_of_digits_def
      digit_val_def checked_date_def days_in_month_def)

lemma reads_iso_example:
  "Timestamp w ''2025-01-22'' = Inr \<lparr>year = 2025, month = 1, day = 22\<rparr>"
  by (simp add: Timestamp_def numeric_date_def mm_dd_yyyy_def yyyy_mm_dd_def is_digit_def
      nat_of_digits_def digit_val_def checked_date_def days_in_month_def)

lemma sample_ts: "Timestamp sample_world ''01-22-2025'' = Inr \<lparr>year = 2025, month = 1, day = 22\<rparr>"
  by (rule reads_month_first_example)

lemma strftime_example: "strftime_Ymd \<lparr>year = 2025, month = 1, day = 22\<rparr> = ''20250122''"
  by (simp add: strftime_shape calendar_date_def digit_char_def)

text \<open>
  Claim C1. Whenever \<^verbatim>\<open>pd.Timestamp\<close> reads the date string as a calendar date with a
  four-digit year and the cycle is one of 00, 06, 12, 18, the one URL that
  \<^verbatim>\<open>get_gefs_data\<close> hands to \<^verbatim>\<open>fsspec.open_local\<close> is the script's literal template with
  the date and the cycle put in: the date part has exactly eight characters, all decimal
  digits, of which the first four denote the year, the next two the month and the last two
  the day, and the cycle part is the two-character cycle string, unchanged. The
  entire-atmosphere and the surface script share one template, the half-degree script has
  its own. In particular, when \<^verbatim>\<open>01-22-2025\<close> is read as 22 January 2025, the
  entire-atmosphere script with cycle 12 opens a URL that ends with
  \<^verbatim>\<open>gefs.20250122/12/chem/pgrb2ap25/gefs.chem.t12z.a2d_0p25.f018.grib2\<close>.
\<close>

theorem remote_key_template:
  "(Timestamp w date_str = Inr d \<and> calendar_date d \<and> cycle \<in> set [''00'', ''06'', ''12'', ''18'']
      \<longrightarrow>
      length (strftime_Ymd d) = 8 \<and> list_all is_digit (strftime_Ymd d) \<and>
      nat_of_digits (take 4 (strftime_Ymd d)) = year d \<and>
      nat_of_digits (take 2 (drop 4 (strftime_Ymd d))) = month d \<and>
      nat_of_digits (drop 6 (strftime_Ymd d)) = day d \<and>
      length cycle = 2 \<and>
      remote_keys (fst (get_gefs_data_ea w date_str cycle variable)) =
        [''simplecache::s3://noaa-gefs-pds/gefs.'' @ strftime_Ymd d @ ''/'' @ cycle
           @ ''/chem/pgrb2ap25/gefs.chem.t'' @ cycle @ ''z.a2d_0p25.f018.grib2''] \<and>
      remote_keys (fst (get_gefs_data_sfc w date_str cycle variable)) =
        [''simplecache::s3://noaa-gefs-pds/gefs.'' @ strftime_Ymd d @ ''/'' @ cycle
           @ ''/chem/pgrb2ap25/gefs.chem.t'' @ cycle @ ''z.a2d_0p25.f018.grib2''] \<and>
      remote_keys (fst (get_gefs_data_hd w date_str cycle variable)) =
        [''simplecache::s3://noaa-gefs-pds/gefs.'' @ strftime_Ymd d @ ''/'' @ cycle
           @ ''/chem/pgrb2ap5/gefs.chem.t'' @ cycle @ ''z.a3d_0p25.f018.grib2''])
   \<and> (Timestamp w ''01-22-2025'' = Inr \<lparr>year = 2025, month = 1, day = 22\<rparr> \<longrightarrow>
        remote_keys (fst (get_gefs_data_ea w ''01-22-2025'' ''12'' ''totAOD550'')) =
          [''simplecache::s3://noaa-gefs-pds/''
             @ ''gefs.20250122/12/chem/pgrb2ap25/gefs.chem.t12z.a2d_0p25.f018.grib2''])"
proof (intro conjI impI)
  assume a: "Timestamp w date_str = Inr d \<and> calendar_date d \<and> cycle \<in> set [''00'', ''06'', ''12'', ''18'']"
  then have ts: "Timestamp w date_str = Inr d" and cd: "calendar_date d"
    and cy: "cycle \<in> set [''00'', ''06'', ''12'', ''18'']" by blast+
  from cd show "length (strftime_Ymd d) = 8" by (rule strftime_props)
  from cd show "list_all is_digit (strftime_Ymd d)" by (rule strftime_props)
  from cd show "nat_of_digits (take 4 (strftime_Ymd d)) = year d" by (rule strftime_props)
  from cd show "nat_of_digits (take 2 (drop 4 (strftime_Ymd d))) = month d" by (rule strftime_props)
  from cd show "nat_of_digits (drop 6 (strftime_Ymd d)) = day d" by (rule strftime_props)
  from cy show "length cycle = 2" by (rule cycle_length)
  from ts show "remote_keys (fst (get_gefs_data_ea w date_str cycle variable)) =
        [''simplecache::s3://noaa-gefs-pds/gefs.'' @ strftime_Ymd d @ ''/'' @ cycle
           @ ''/chem/pgrb2ap25/gefs.chem.t'' @ cycle @ ''z.a2d_0p25.f018.grib2'']" by (rule ea_keys)
  from ts show "remote_keys (fst (get_gefs_data_sfc w date_str cycle variable)) =
        [''simplecache::s3://noaa-gefs-pds/gefs.'' @ strftime_Ymd d @ ''/'' @ cycle
           @ ''/chem/pgrb2ap25/gefs.chem.t'' @ cycle @ ''z.a2d_0p25.f018.grib2'']" by (rule sfc_keys)
  from ts show "remote_keys (fst (get_gefs_data_hd w date_str cycle variable)) =
        [''simplecache::s3://noaa-gefs-pds/gefs.'' @ strftime_Ymd d @ ''/'' @ cycle
           @ ''/chem/pgrb2ap5/gefs.chem.t'' @ cycle @ ''z.a3d_0p25.f018.grib2'']" by (rule hd_keys)
next
  assume "Timestamp w ''01-22-2025'' = Inr \<lparr>year = 2025, month = 1, day = 22\<rparr>"
  from ea_keys [OF this, of "''12''" "''totAOD550''"]
  show "remote_keys (fst (get_gefs_data_ea w ''01-22-2025'' ''12'' ''totAOD550'')) =
          [''simplecache::s3://noaa-gefs-pds/''
             @ ''gefs.20250122/12/chem/pgrb2ap25/gefs.chem.t12z.a2d_0p25.f018.grib2'']"
    by (simp add: strftime_example [simplified])
qed

theorem remote_key_template_witness:
  "Timestamp sample_world ''01-22-2025'' = Inr \<lparr>year = 2025, month = 1, day = 22\<rparr> \<and>
   calendar_date \<lparr>year = 2025, month = 1, day = 22\<rparr> \<and>
   ''12'' \<in> set [''00'', ''06'', ''12'', ''18''] \<and>
   remote_keys (fst (get_gefs_data_ea sample_world ''01-22-2025'' ''12'' ''totAOD550'')) =
     [''simplecache::s3://noaa-gefs-pds/gefs.20250122/12/chem/pgrb2ap25/gefs.chem.t12z.a2d_0p25.f018.grib2''] \<and>
   remote_keys (fst (get_gefs_data_sfc sample_world ''01-22-2025'' ''12'' ''sfc_tot_pm25'')) =
     [''simplecache::s3://noaa-gefs-pds/gefs.20250122/12/chem/pgrb2ap25/gefs.chem.t12z.a2d_0p25.f018.grib2'']"
  using remote_key_template [where w = sample_world and date_str = "''01-22-2025''"
      and d = "\<lparr>year = 2025, month = 1, day = 22\<rparr>" and cycle = "''12''" and variable = "''totAOD550''"]
    remote_key_template [where w = sample_world and date_str = "''01-22-2025''"
      and d = "\<lparr>year = 2025, month = 1, day = 22\<rparr>" and cycle = "''12''" and variable = "''sfc_tot_pm25''"]
  by (simp add: sample_ts [simplified] calendar_date_def strftime_example [simplified])

subsection \<open>What the fetch depends on\<close>

text \<open>
  Claim C8. In each of the three scripts \<^verbatim>\<open>get_gefs_data\<close> does not read its \<open>variable\<close>
  argument: two calls that differ only in it make the same library calls with the same
  arguments (same URL, same decode filter) and return the same result, so the same whole
  remote object is fetched and decoded whichever variable is asked for.
\<close>

theorem get_gefs_data_ignores_variable: 
  "get_gefs_data_sfc w date_str cycle v1 = get_gefs_data_sfc w date_str cycle v2 \<and>
   get_gefs_data_ea w date_str cycle v1 = get_gefs_data_ea w date_str cycle v2 \<and>
   get_gefs_data_hd w date_str cycle v1 = get_gefs_data_hd w date_str cycle v2"
  by (simp add: get_gefs_data_sfc_def get_gefs_data_ea_def get_gefs_data_hd_def)

theorem get_gefs_data_ignores_variable_witness:
  "remote_keys (fst (get_gefs_data_sfc sample_world ''01-22-2025'' ''12'' ''sfc_tot_pm25'')) =
   remote_keys (fst (get_gefs_data_sfc sample_world ''01-22-2025'' ''12'' ''sfc_du_pm10'')) \<and>
   decode_filters (fst (get_gefs_data_sfc sample_world ''01-22-2025'' ''12'' ''sfc_tot_pm25'')) =
   decode_filters (fst (get_gefs_data_sfc sample_world ''01-22-2025'' ''12'' ''sfc_du_pm10''))"
  using get_gefs_data_ignores_variable [of sample_world "''01-22-2025''" "''12''" "''sfc_tot_pm25''" "''sfc_du_pm10''"]
  by simp

lemma sample_open_local: "open_local sample_world url anon cache = Inr (cache @ ''/gefs.grib2'')"
  by (simp add: sample_world_def)

text \<open>
  Claim C9. The \<^verbatim>\<open>filters\<close> argument that \<^verbatim>\<open>get_gefs_data\<close> hands to \<^verbatim>\<open>xr.open_dataset\<close> is
  a literal of the script, the same for every date, cycle, variable and world: whenever the
  decoder is called at all, the entire-atmosphere script passes
  \<^verbatim>\<open>typeOfFirstFixedSurface=10, productDefinitionTemplateNumber=48\<close>, the surface script
  \<^verbatim>\<open>typeOfFirstFixedSurface=1, productDefinitionTemplateNumber=48\<close>, and the half-degree
  script passes no filter; and the decoder is called, exactly once and with that argument,
  whenever the date is read and the URL built from it is opened.
\<close>

theorem fixed_decode_filters:
  "set (decode_filters (fst (get_gefs_data_ea w date_str cycle variable)))
     \<subseteq> {Some [(''typeOfFirstFixedSurface'', 10), (''productDefinitionTemplateNumber'', 48)]} \<and>
   set (decode_filters (fst (get_gefs_data_sfc w date_str cycle variable)))
     \<subseteq> {Some [(''typeOfFirstFixedSurface'', 1), (''productDefinitionTemplateNumber'', 48)]} \<and>
   set (decode_filters (fst (get_gefs_data_hd w date_str cycle variable))) \<subseteq> {None} \<and>
   (Timestamp w date_str = Inr d \<and>
    open_local w (hd (remote_keys (fst (get_gefs_data_ea w date_str cycle variable)))) True ''/tmp/files'' = Inr file_ea \<and>
    open_local w (hd (remote_keys (fst (get_gefs_data_sfc w date_str cycle variable)))) True ''/tmp/files'' = Inr file_sfc \<and>
    open_local w (hd (remote_keys (fst (get_gefs_data_hd w date_str cycle variable)))) True ''/tmp/files'' = Inr file_hd
    \<longrightarrow>
    decode_filters (fst (get_gefs_data_ea w date_str cycle variable)) =
      [Some [(''typeOfFirstFixedSurface'', 10), (''productDefinitionTemplateNumber'', 48)]] \<and>
    decode_filters (fst (get_gefs_data_sfc w date_str cycle variable)) =
      [Some [(''typeOfFirstFixedSurface'', 1), (''productDefinitionTemplateNumber'', 48)]] \<and>
    decode_filters (fst (get_gefs_data_hd w date_str cycle variable)) = [None])"
proof (intro conjI impI)
  show "set (decode_filters (fst (get_gefs_data_ea w date_str cycle variable)))
     \<subseteq> {Some [(''typeOfFirstFixedSurface'', 10), (''productDefinitionTemplateNumber'', 48)]}"
    by (simp add: get_gefs_data_ea_def Let_def split: sum.split)
  show "set (decode_filters (fst (get_gefs_data_sfc w date_str cycle variable)))
     \<subseteq> {Some [(''typeOfFirstFixedSurface'', 1), (''productDefinitionTemplateNumber'', 48)]}"
    by (simp add: get_gefs_data_sfc_def Let_def split: sum.split)
  show "set (decode_filters (fst (get_gefs_data_hd w date_str cycle variable))) \<subseteq> {None}"
    by (simp add: get_gefs_data_hd_def Let_def split: sum.split)
next
  assume a: "Timestamp w date_str = Inr d \<and>
    open_local w (hd (remote_keys (fst (get_gefs_data_ea w date_str cycle variable)))) True ''/tmp/files'' = Inr file_ea \<and>
    open_local w (hd (remote_keys (fst (get_gefs_data_sfc w date_str cycle variable)))) True ''/tmp/files'' = Inr file_sfc \<and>
    open_local w (hd (remote_keys (fst (get_gefs_data_hd w date_str cycle variable)))) True ''/tmp/files'' = Inr file_hd"
  then have ts: "Timestamp w date_str = Inr d" by blast
  from a show "decode_filters (fst (get_gefs_data_ea w date_str cycle variable)) =
      [Some [(''typeOfFirstFixedSurface'', 10), (''productDefinitionTemplateNumber'', 48)]]"
    unfolding ea_keys [OF ts] by (simp add: get_gefs_data_ea_def Let_def)
  from a show "decode_filters (fst (get_gefs_data_sfc w date_str cycle variable)) =
      [Some [(''typeOfFirstFixedSurface'', 1), (''productDefinitionTemplateNumber'', 48)]]"
    unfolding sfc_keys [OF ts] by (simp add: get_gefs_data_sfc_def Let_def)
  from a show "decode_filters (fst (get_gefs_data_hd w date_str cycle variable)) = [None]"
    unfolding hd_keys [OF ts] by (simp add: get_gefs_data_hd_def Let_def)
qed

theorem fixed_decode_filters_witness:
  "decode_filters (fst (get_gefs_data_ea sample_world ''01-22-2025'' ''12'' ''totAOD550'')) =
      [Some [(''typeOfFirstFixedSurface'', 10), (''productDefinitionTemplateNumber'', 48)]] \<and>
   decode_filters (fst (get_gefs_data_sfc sample_world ''01-22-2025'' ''12'' ''totAOD550'')) =
      [Some [(''typeOfFirstFixedSurface'', 1), (''productDefinitionTemplateNumber'', 48)]] \<and>
   decode_filters (fst (get_gefs_data_hd sample_world ''01-22-2025'' ''12'' ''totAOD550'')) = [None]"
  using fixed_decode_filters [where w = sample_world and date_str = "''01-22-2025''" and cycle = "''12''"
      and variable = "''totAOD550''" and d = "\<lparr>year = 2025, month = 1, day = 22\<rparr>"
      and file_ea = "''/tmp/files/gefs.grib2''" and file_sfc = "''/tmp/files/gefs.grib2''"
      and file_hd = "''/tmp/files/gefs.grib2''"]
  by (simp add: sample_ts [simplified] sample_open_local)

subsection \<open>Dates in other layouts\<close>

lemma dash_is_no_digit: "\<not> is_digit (CHR ''-'')"
  by (simp add: is_digit_def)

lemma iso_is_not_month_first: "yyyy_mm_dd s \<Longrightarrow> \<not> mm_dd_yyyy s"
proof
  assume iso: "yyyy_mm_dd s" and us: "mm_dd_yyyy s"
  from iso have len: "length s = 10" and dash: "s ! 4 = CHR ''-''"
    by (simp_all add: yyyy_mm_dd_def)
  from us have "list_all is_digit (take 2 (drop 3 s))"
    by (simp add: mm_dd_yyyy_def)
  then have "\<forall>n<2. is_digit (s ! (3 + n))"
    using len by (simp add: list_all_length)
  from this [rule_format, of 1] have "is_digit (s ! 4)"
    by simp
  with dash dash_is_no_digit show False by simp
qed

lemma reads_iso:
  "yyyy_mm_dd s \<Longrightarrow> numeric_date s = Some d \<Longrightarrow> Timestamp w s = Inr d"
  by (simp add: Timestamp_def)

text \<open>
  Claim C10. \<^verbatim>\<open>get_gefs_data\<close> does not check the layout of the date string; it hands it
  to \<^verbatim>\<open>pd.Timestamp\<close>, which reads more than the documented layout. The ISO string
  \<^verbatim>\<open>2025-01-22\<close> is not in the layout \<^verbatim>\<open>MM-DD-YYYY\<close> (\<^verbatim>\<open>01-22-2025\<close> is), and in every world the
  call with it succeeds in building a URL, the one for 20250122, and is in every respect
  (calls made, arguments, result) the same as the call with \<^verbatim>\<open>01-22-2025\<close>, in all three
  scripts. More generally every string in the layout \<^verbatim>\<open>YYYY-MM-DD\<close> that names a day of the
  calendar (years 1678 to 2261) is outside the documented layout and still gives the URL of
  that day.
\<close>

theorem iso_date_same_key:
  "\<not> mm_dd_yyyy ''2025-01-22'' \<and> mm_dd_yyyy ''01-22-2025'' \<and>
   remote_keys (fst (get_gefs_data_sfc w ''2025-01-22'' cycle variable)) =
     [''simplecache::s3://noaa-gefs-pds/gefs.20250122/'' @ cycle
        @ ''/chem/pgrb2ap25/gefs.chem.t'' @ cycle @ ''z.a2d_0p25.f018.grib2''] \<and>
   get_gefs_data_sfc w ''2025-01-22'' cycle variable = get_gefs_data_sfc w ''01-22-2025'' cycle variable \<and>
   get_gefs_data_ea w ''2025-01-22'' cycle variable = get_gefs_data_ea w ''01-22-2025'' cycle variable \<and>
   get_gefs_data_hd w ''2025-01-22'' cycle variable = get_gefs_data_hd w ''01-22-2025'' cycle variable \<and>
   (yyyy_mm_dd s \<and> numeric_date s = Some d \<longrightarrow>
      \<not> mm_dd_yyyy s \<and>
      remote_keys (fst (get_gefs_data_sfc w s cycle variable)) =
        [''simplecache::s3://noaa-gefs-pds/gefs.'' @ strftime_Ymd d @ ''/'' @ cycle
           @ ''/chem/pgrb2ap25/gefs.chem.t'' @ cycle @ ''z.a2d_0p25.f018.grib2''])"
proof (intro conjI impI)
  have iso: "Timestamp w ''2025-01-22'' = Inr \<lparr>year = 2025, month = 1, day = 22\<rparr>"
    by (rule reads_iso_example)
  have us: "Timestamp w ''01-22-2025'' = Inr \<lparr>year = 2025, month = 1, day = 22\<rparr>"
    by (rule reads_month_first_example)
  show "\<not> mm_dd_yyyy ''2025-01-22''"
    by (simp add: mm_dd_yyyy_def)
  show "mm_dd_yyyy ''01-22-2025''"
    by (simp add: mm_dd_yyyy_def is_digit_def)
  from sfc_keys [OF iso, of cycle variable]
  show "remote_keys (fst (get_gefs_data_sfc w ''2025-01-22'' cycle variable)) =
     [''simplecache::s3://noaa-gefs-pds/gefs.20250122/'' @ cycle
        @ ''/chem/pgrb2ap25/gefs.chem.t'' @ cycle @ ''z.a2d_0p25.f018.grib2'']"
    by (simp add: strftime_example [simplified])
  show "get_gefs_data_sfc w ''2025-01-22'' cycle variable = get_gefs_data_sfc w ''01-22-2025'' cycle variable"
    unfolding get_gefs_data_sfc_def iso us ..
  show "get_gefs_data_ea w ''2025-01-22'' cycle variable = get_gefs_data_ea w ''01-22-2025'' cycle variable"
    unfolding get_gefs_data_ea_def iso us ..
  show "get_gefs_data_hd w ''2025-01-22'' cycle variable = get_gefs_data_hd w ''01-22-2025'' cycle variable"
    unfolding get_gefs_data_hd_def iso us ..
next
  assume "yyyy_mm_dd s \<and> numeric_date s = Some d"
  then show "\<not> mm_dd_yyyy s"
    by (simp add: iso_is_not_month_first)
next
  assume a: "yyyy_mm_dd s \<and> numeric_date s = Some d"
  then have "Timestamp w s = Inr d"
    by (simp add: reads_iso)
  then show "remote_keys (fst (get_gefs_data_sfc w s cycle variable)) =
        [''simplecache::s3://noaa-gefs-pds/gefs.'' @ strftime_Ymd d @ ''/'' @ cycle
           @ ''/chem/pgrb2ap25/gefs.chem.t'' @ cycle @ ''z.a2d_0p25.f018.grib2'']"
    by (rule sfc_keys)
qed

theorem iso_date_same_key_witness:
  "yyyy_mm_dd ''2025-01-22'' \<and>
   numeric_date ''2025-01-22'' = Some \<lparr>year = 2025, month = 1, day = 22\<rparr> \<and>
   \<not> mm_dd_yyyy ''2025-01-22'' \<and>
   remote_keys (fst (get_gefs_data_sfc sample_world ''2025-01-22'' ''12'' ''sfc_tot_pm25'')) =
     [''simplecache::s3://noaa-gefs-pds/gefs.20250122/12/chem/pgrb2ap25/gefs.chem.t12z.a2d_0p25.f018.grib2''] \<and>
   remote_keys (fst (get_gefs_data_sfc sample_world ''01-22-2025'' ''12'' ''sfc_tot_pm25'')) =
     [''simplecache::s3://noaa-gefs-pds/gefs.20250122/12/chem/pgrb2ap25/gefs.chem.t12z.a2d_0p25.f018.grib2'']"
proof -
  have l: "yyyy_mm_dd ''2025-01-22''"
    by (simp add: yyyy_mm_dd_def is_digit_def)
  have n: "numeric_date ''2025-01-22'' = Some \<lparr>year = 2025, month = 1, day = 22\<rparr>"
    by (simp add: numeric_date_def mm_dd_yyyy_def yyyy_mm_dd_def is_digit_def
        nat_of_digits_def digit_val_def checked_date_def days_in_month_def)
  note t = iso_date_same_key [where w = sample_world and cycle = "''12''"
      and variable = "''sfc_tot_pm25''" and s = "''2025-01-22''"
      and d = "\<lparr>year = 2025, month = 1, day = 22\<rparr>"]
  from t [THEN conjunct2, THEN conjunct2, THEN conjunct1]
  have k: "remote_keys (fst (get_gefs_data_sfc sample_world ''2025-01-22'' ''12'' ''sfc_tot_pm25'')) =
     [''simplecache::s3://noaa-gefs-pds/gefs.20250122/12/chem/pgrb2ap25/gefs.chem.t12z.a2d_0p25.f018.grib2'']"
    by simp
  from t [THEN conjunct2, THEN conjunct2, THEN conjunct2, THEN conjunct1]
  have e: "get_gefs_data_sfc sample_world ''01-22-2025'' ''12'' ''sfc_tot_pm25'' =
      get_gefs_data_sfc sample_world ''2025-01-22'' ''12'' ''sfc_tot_pm25''"
    by simp
  from t l n have m: "\<not> mm_dd_yyyy ''2025-01-22''"
    by blast
  show ?thesis using l n m k by (simp add: e)
qed

subsection \<open>Selecting the variable and the level\<close>

text \<open>
  Claim C4. When the dataset has no entry for the requested variable name, \<^verbatim>\<open>create_plot\<close>
  fails with \<open>UnknownVariable\<close> in all three scripts, before any call to the renderer: no
  array, default or null, is handed on, and nothing is drawn, saved or shown.
\<close>

theorem unknown_variable_fails:
  "ds variable = None \<longrightarrow>
   create_plot_sfc w ds variable levels output_file = ([], Inl (UnknownVariable variable)) \<and>
   create_plot_ea w ds variable levels output_file = ([], Inl (UnknownVariable variable)) \<and>
   create_plot_hd w ds variable model_level levels output_file = ([], Inl (UnknownVariable variable))"
  by (simp add: create_plot_sfc_def create_plot_ea_def create_plot_hd_def)

theorem unknown_variable_fails_witness:
  "sample_dataset ''no_such_var'' = None \<and>
   create_plot_sfc sample_world sample_dataset ''no_such_var'' [1, 2] ''gefs_plot.jpg''
     = ([], Inl (UnknownVariable ''no_such_var'')) \<and>
   create_plot_hd sample_world sample_dataset ''no_such_var'' 1 [1, 2] ''gefs_plot.jpg''
     = ([], Inl (UnknownVariable ''no_such_var''))"
  using unknown_variable_fails [where ds = sample_dataset and variable = "''no_such_var''"
      and w = sample_world and levels = "[1, 2]" and output_file = "''gefs_plot.jpg''" and model_level = 1]
  by (simp add: sample_dataset_def)

lemma float64_exact: "\<bar>i\<bar> \<le> 2 ^ 53 \<Longrightarrow> float64_of_int i = Some (of_int i)"
proof -
  assume "\<bar>i\<bar> \<le> 2 ^ 53"
  then have "nat \<bar>i\<bar> \<le> 2 ^ 53"
    by (simp add: nat_le_iff)
  then show ?thesis
    by (simp add: float64_of_int_def Let_def)
qed


text \<open>
  The conversion of the label is not the identity: the integer \<^verbatim>\<open>2**53 + 1\<close> is no double
  and selects the level \<^verbatim>\<open>2**53\<close>.
\<close>

lemma float64_rounds_example: "float64_of_int (2 ^ 53 + 1) = Some (2 ^ 53)"
  by (simp add: float64_of_int_def Let_def bit_length.simps)

lemma sel_rounds_example: "sel (Levels [(2 ^ 53, g)]) (2 ^ 53 + 1) = Inr (Field g)"
  by (simp add: sel_def float64_rounds_example [simplified])




subsection \<open>Rendering\<close>

text \<open>
  Claim C6. When the variable is selected and the library calls succeed, \<^verbatim>\<open>create_plot\<close>
  makes exactly these calls, in this order: \<^verbatim>\<open>quick_imshow\<close> on the selected array with the
  colormap \<^verbatim>\<open>turbo\<close> whose under-range colour is set to white, the levels it was given,
  \<^verbatim>\<open>roll_dateline=True\<close> and state boundaries switched on; \<^verbatim>\<open>set_ylim([10, 50])\<close> (latitude
  10 to 50 north); \<^verbatim>\<open>set_xlim([-130, -90])\<close> (longitude 130 to 90 west);
  \<^verbatim>\<open>monet.savefig\<close> on the output path it was given; and then \<^verbatim>\<open>plt.show()\<close>. The three
  scripts agree in this; the half-degree script renders the selected level.
\<close>

theorem create_plot_calls:
  "(ds variable = Some a \<and>
    quick_imshow w a \<lparr>kw_cmap = \<lparr>cmap_name = ''turbo'', under = Some ''white''\<rparr>,
       kw_roll_dateline = True, kw_levels = levels, kw_map_kws = [(''states'', True)],
       kw_figsize = (10, 10)\<rparr> = Inr ax \<and>
    savefig w output_file = None \<longrightarrow>
    create_plot_sfc w ds variable levels output_file =
      ([Quick_imshow a \<lparr>kw_cmap = \<lparr>cmap_name = ''turbo'', under = Some ''white''\<rparr>,
          kw_roll_dateline = True, kw_levels = levels, kw_map_kws = [(''states'', True)],
          kw_figsize = (10, 10)\<rparr>,
        Set_ylim ax 10 50, Set_xlim ax (- 130) (- 90), Savefig output_file, Show], Inr ()) \<and>
    create_plot_ea w ds variable levels output_file =
      create_plot_sfc w ds variable levels output_file) \<and>
   (ds variable = Some stack \<and> sel stack model_level = Inr a \<and>
    quick_imshow w a \<lparr>kw_cmap = \<lparr>cmap_name = ''turbo'', under = Some ''white''\<rparr>,
       kw_roll_dateline = True, kw_levels = levels, kw_map_kws = [(''states'', True)],
       kw_figsize = (10, 10)\<rparr> = Inr ax \<and>
    savefig w output_file = None \<longrightarrow>
    create_plot_hd w ds variable model_level levels output_file =
      ([Quick_imshow a \<lparr>kw_cmap = \<lparr>cmap_name = ''turbo'', under = Some ''white''\<rparr>,
          kw_roll_dateline = True, kw_levels = levels, kw_map_kws = [(''states'', True)],
          kw_figsize = (10, 10)\<rparr>,
        Set_ylim ax 10 50, Set_xlim ax (- 130) (- 90), Savefig output_file, Show], Inr ()))"
  by (simp add: create_plot_sfc_def create_plot_ea_def create_plot_hd_def)

theorem create_plot_calls_witness:
  "create_plot_sfc sample_world sample_dataset ''sfc_tot_pm25'' [1, 2, 4] ''gefs_plot.jpg'' =
     ([Quick_imshow (Field [[3]]) \<lparr>kw_cmap = \<lparr>cmap_name = ''turbo'', under = Some ''white''\<rparr>,
         kw_roll_dateline = True, kw_levels = [1, 2, 4], kw_map_kws = [(''states'', True)],
         kw_figsize = (10, 10)\<rparr>,
       Set_ylim 0 10 50, Set_xlim 0 (- 130) (- 90), Savefig ''gefs_plot.jpg'', Show], Inr ()) \<and>
   create_plot_hd sample_world sample_dataset ''du_pm2'' 5 [1, 2, 4] ''gefs_plot.jpg'' =
     ([Quick_imshow (Field [[2]]) \<lparr>kw_cmap = \<lparr>cmap_name = ''turbo'', under = Some ''white''\<rparr>,
         kw_roll_dateline = True, kw_levels = [1, 2, 4], kw_map_kws = [(''states'', True)],
         kw_figsize = (10, 10)\<rparr>,
       Set_ylim 0 10 50, Set_xlim 0 (- 130) (- 90), Savefig ''gefs_plot.jpg'', Show], Inr ())"
proof -
  have s: "sel (Levels [(2, [[1]]), (5, [[2]]), (10, [[3]])]) 5 = Inr (Field [[2]])"
    using float64_exact [of 5] by (simp add: sel_def)
  note t = create_plot_calls [where ds = sample_dataset and variable = "''sfc_tot_pm25''"
      and a = "Field [[3]]" and w = sample_world and levels = "[1, 2, 4]" and ax = 0
      and output_file = "''gefs_plot.jpg''", THEN conjunct1]
  note u = create_plot_calls [where ds = sample_dataset and variable = "''du_pm2''"
      and stack = "Levels [(2, [[1]]), (5, [[2]]), (10, [[3]])]" and model_level = 5
      and a = "Field [[2]]" and w = sample_world and levels = "[1, 2, 4]" and ax = 0
      and output_file = "''gefs_plot.jpg''", THEN conjunct2]
  from t have "create_plot_sfc sample_world sample_dataset ''sfc_tot_pm25'' [1, 2, 4] ''gefs_plot.jpg'' =
     ([Quick_imshow (Field [[3]]) \<lparr>kw_cmap = \<lparr>cmap_name = ''turbo'', under = Some ''white''\<rparr>,
         kw_roll_dateline = True, kw_levels = [1, 2, 4], kw_map_kws = [(''states'', True)],
         kw_figsize = (10, 10)\<rparr>,
       Set_ylim 0 10 50, Set_xlim 0 (- 130) (- 90), Savefig ''gefs_plot.jpg'', Show], Inr ())"
    by (simp add: sample_dataset_def sample_world_def)
  moreover from u s have "create_plot_hd sample_world sample_dataset ''du_pm2'' 5 [1, 2, 4] ''gefs_plot.jpg'' =
     ([Quick_imshow (Field [[2]]) \<lparr>kw_cmap = \<lparr>cmap_name = ''turbo'', under = Some ''white''\<rparr>,
         kw_roll_dateline = True, kw_levels = [1, 2, 4], kw_map_kws = [(''states'', True)],
         kw_figsize = (10, 10)\<rparr>,
       Set_ylim 0 10 50, Set_xlim 0 (- 130) (- 90), Savefig ''gefs_plot.jpg'', Show], Inr ())"
    by (simp add: sample_dataset_def sample_world_def)
  ultimately show ?thesis by simp
qed

subsection \<open>The argument parser\<close>

lemma parse_args_rejects:
  "x \<in> set xs \<Longrightarrow> (\<And>ns. isl (act ns x)) \<Longrightarrow> isl (parse_args act ns xs)"
proof (induction xs arbitrary: ns)
  case Nil
  then show ?case by simp
next
  case (Cons y ys)
  show ?case
  proof (cases "act ns y")
    case (Inl e)
    then show ?thesis by simp
  next
    case (Inr ns')
    with Cons.prems(1) Inr Cons.prems(2) [of ns] have "x \<in> set ys" by auto
    from Cons.IH [OF this Cons.prems(2)] Inr show ?thesis by simp
  qed
qed

lemma parse_args_append:
  "parse_args act ns (xs @ ys) =
     (case parse_args act ns xs of Inl e \<Rightarrow> Inl e | Inr ns' \<Rightarrow> parse_args act ns' ys)"
  by (induction xs arbitrary: ns) (simp_all split: sum.split)

lemma cycle_outside_choices:
  "c \<notin> set [''00'', ''06'', ''12'', ''18''] \<Longrightarrow>
   take_action w opts ns (''--cycle'', [c]) = Inl (InvalidArgument ''--cycle'')"
  by (simp add: one_argument_def)

lemma cycle_outside_choices_hd:
  "c \<notin> set [''00'', ''06'', ''12'', ''18''] \<Longrightarrow> take_action_hd w ns (''--cycle'', [c]) = Inl (InvalidArgument ''--cycle'')"
  by (simp add: one_argument_def)

lemma take_action_keeps:
  "take_action w opts ns (opt, vs) = Inr ns' \<Longrightarrow>
     (opt \<noteq> ''--date'' \<longrightarrow> args_date ns' = args_date ns) \<and>
     (opt \<noteq> ''--cycle'' \<longrightarrow> args_cycle ns' = args_cycle ns) \<and>
     (opt \<noteq> ''--variable'' \<longrightarrow> args_variable ns' = args_variable ns) \<and>
     (opt \<noteq> ''--levels'' \<longrightarrow> args_levels ns' = args_levels ns) \<and>
     (opt \<noteq> ''--output'' \<longrightarrow> args_output ns' = args_output ns)"
  by (auto split: if_splits sum.splits)

lemma take_action_hd_keeps:
  "take_action_hd w ns (opt, vs) = Inr ns' \<Longrightarrow>
     (opt \<noteq> ''--date'' \<longrightarrow> args_date ns' = args_date ns) \<and>
     (opt \<noteq> ''--cycle'' \<longrightarrow> args_cycle ns' = args_cycle ns) \<and>
     (opt \<noteq> ''--variable'' \<longrightarrow> args_variable ns' = args_variable ns) \<and>
     (opt \<noteq> ''--levels'' \<longrightarrow> args_levels ns' = args_levels ns) \<and>
     (opt \<noteq> ''--output'' \<longrightarrow> args_output ns' = args_output ns)"
  using take_action_keeps [of w option_strings_hd ns opt vs ns']
  by (cases "opt = ''--model_level''") (auto simp del: take_action.simps split: sum.splits option.splits)

lemma convert_all_ok:
  "map conv vs = map Some xs \<Longrightarrow> convert_all conv opt vs = Inr xs"
  by (induction vs arbitrary: xs) auto

lemma levels_stored:
  "vs \<noteq> [] \<Longrightarrow> \<forall>v\<in>set vs. is_argument opts v \<Longrightarrow> map (py_float w) vs = map Some xs \<Longrightarrow>
   take_action w opts ns (''--levels'', vs) = Inr (ns\<lparr>args_levels := xs\<rparr>)"
proof -
  assume ne: "vs \<noteq> []" and arg: "\<forall>v\<in>set vs. is_argument opts v"
    and conv: "map (py_float w) vs = map Some xs"
  from arg have tw: "takeWhile (is_argument opts) vs = vs"
    by (simp add: takeWhile_eq_all_conv)
  from arg have dw: "dropWhile (is_argument opts) vs = []"
    by simp
  from ne conv show ?thesis
    by (simp add: float_arguments_def tw dw convert_all_ok)
qed

lemma levels_stored_rev:
  "take_action w opts ns (''--levels'', vs) = Inr ns' \<Longrightarrow> map (py_float w) vs = map Some xs \<Longrightarrow>
   args_levels ns' = xs"
proof -
  assume a: "take_action w opts ns (''--levels'', vs) = Inr ns'"
    and conv: "map (py_float w) vs = map Some xs"
  from a obtain fs where f: "float_arguments w opts ''--levels'' vs = Inr fs"
    and n: "ns' = ns\<lparr>args_levels := fs\<rparr>"
    by (auto split: sum.splits)
  from f have dw: "dropWhile (is_argument opts) vs = []"
    by (auto simp: float_arguments_def split: if_splits sum.splits list.splits)
  then have tw: "takeWhile (is_argument opts) vs = vs"
    using takeWhile_dropWhile_id [of "is_argument opts" vs] by simp
  from f conv have "fs = xs"
    by (auto simp: float_arguments_def tw dw convert_all_ok split: if_splits)
  with n show ?thesis by simp
qed

text \<open>
  Claim C5. A command line on which \<^verbatim>\<open>--cycle\<close> is given a string other than 00, 06, 12
  or 18 is rejected by \<^verbatim>\<open>parse_arguments\<close> in all three scripts, whatever else is on it; and
  since \<^verbatim>\<open>main\<close> parses before it fetches, the run ends with that error having made no
  library call at all, so no network access. The error names \<^verbatim>\<open>--cycle\<close> when nothing before
  it on the command line was wrong.
\<close>

theorem bad_cycle_rejected_before_fetch:
  "(''--cycle'', [c]) \<in> set argv \<and> c \<notin> set [''00'', ''06'', ''12'', ''18''] \<longrightarrow>
   (\<exists>e. parse_arguments_sfc w argv = Inl e \<and> main_sfc w argv = ([], Inl e)) \<and>
   (\<exists>e. parse_arguments_ea w argv = Inl e \<and> main_ea w argv = ([], Inl e)) \<and>
   (\<exists>e. parse_arguments_hd w argv = Inl e \<and> main_hd w argv = ([], Inl e)) \<and>
   parse_arguments_sfc w [(''--cycle'', [c])] = Inl (InvalidArgument ''--cycle'')"
proof (intro impI conjI)
  assume a: "(''--cycle'', [c]) \<in> set argv \<and> c \<notin> set [''00'', ''06'', ''12'', ''18'']"
  then have mem: "(''--cycle'', [c]) \<in> set argv" and bad: "c \<notin> set [''00'', ''06'', ''12'', ''18'']"
    by blast+
  have "isl (parse_arguments_sfc w argv)"
    unfolding parse_arguments_sfc_def using mem
    by (rule parse_args_rejects) (simp only: cycle_outside_choices [OF bad] sum.disc)
  then obtain e1 where "parse_arguments_sfc w argv = Inl e1"
    by (auto simp: isl_def)
  then show "\<exists>e. parse_arguments_sfc w argv = Inl e \<and> main_sfc w argv = ([], Inl e)"
    by (simp add: main_sfc_def)
  have "isl (parse_arguments_ea w argv)"
    unfolding parse_arguments_ea_def using mem
    by (rule parse_args_rejects) (simp only: cycle_outside_choices [OF bad] sum.disc)
  then obtain e2 where "parse_arguments_ea w argv = Inl e2"
    by (auto simp: isl_def)
  then show "\<exists>e. parse_arguments_ea w argv = Inl e \<and> main_ea w argv = ([], Inl e)"
    by (simp add: main_ea_def)
  have "isl (parse_arguments_hd w argv)"
    unfolding parse_arguments_hd_def using mem
    by (rule parse_args_rejects) (simp only: cycle_outside_choices_hd [OF bad] sum.disc)
  then obtain e3 where "parse_arguments_hd w argv = Inl e3"
    by (auto simp: isl_def)
  then show "\<exists>e. parse_arguments_hd w argv = Inl e \<and> main_hd w argv = ([], Inl e)"
    by (simp add: main_hd_def)
  from bad show "parse_arguments_sfc w [(''--cycle'', [c])] = Inl (InvalidArgument ''--cycle'')"
    unfolding parse_arguments_sfc_def by (simp add: cycle_outside_choices del: take_action.simps)
qed

theorem bad_cycle_rejected_before_fetch_witness:
  "(''--cycle'', [''03'']) \<in> set [(''--date'', [''01-22-2025'']), (''--cycle'', [''03''])] \<and>
   ''03'' \<notin> set [''00'', ''06'', ''12'', ''18''] \<and>
   main_sfc sample_world [(''--date'', [''01-22-2025'']), (''--cycle'', [''03''])] =
     ([], Inl (InvalidArgument ''--cycle''))"
proof -
  have p: "parse_arguments_sfc sample_world [(''--date'', [''01-22-2025'']), (''--cycle'', [''03''])]
      = Inl (InvalidArgument ''--cycle'')"
    by (simp add: parse_arguments_sfc_def one_argument_def is_argument_def)
  from bad_cycle_rejected_before_fetch [where c = "''03''" and w = sample_world
      and argv = "[(''--date'', [''01-22-2025'']), (''--cycle'', [''03''])]"] p
  show ?thesis by simp
qed

lemma parse_keeps:
  "parse_args (take_action w opts) ns argv = Inr ns' \<Longrightarrow>
     (''--date'' \<notin> fst ` set argv \<longrightarrow> args_date ns' = args_date ns) \<and>
     (''--cycle'' \<notin> fst ` set argv \<longrightarrow> args_cycle ns' = args_cycle ns) \<and>
     (''--variable'' \<notin> fst ` set argv \<longrightarrow> args_variable ns' = args_variable ns) \<and>
     (''--levels'' \<notin> fst ` set argv \<longrightarrow> args_levels ns' = args_levels ns) \<and>
     (''--output'' \<notin> fst ` set argv \<longrightarrow> args_output ns' = args_output ns)"
proof (induction argv arbitrary: ns)
  case Nil
  then show ?case by simp
next
  case (Cons x xs)
  obtain opt vs where x: "x = (opt, vs)" by (cases x)
  from Cons.prems x obtain ns1 where a: "take_action w opts ns (opt, vs) = Inr ns1"
    and b: "parse_args (take_action w opts) ns1 xs = Inr ns'"
    by (auto simp del: take_action.simps split: sum.splits)
  from take_action_keeps [OF a] Cons.IH [OF b] x show ?case
    by (auto simp del: take_action.simps)
qed

lemma parse_keeps_hd:
  "parse_args (take_action_hd w) ns argv = Inr ns' \<Longrightarrow>
     (''--date'' \<notin> fst ` set argv \<longrightarrow> args_date ns' = args_date ns) \<and>
     (''--cycle'' \<notin> fst ` set argv \<longrightarrow> args_cycle ns' = args_cycle ns) \<and>
     (''--variable'' \<notin> fst ` set argv \<longrightarrow> args_variable ns' = args_variable ns) \<and>
     (''--levels'' \<notin> fst ` set argv \<longrightarrow> args_levels ns' = args_levels ns) \<and>
     (''--output'' \<notin> fst ` set argv \<longrightarrow> args_output ns' = args_output ns)"
proof (induction argv arbitrary: ns)
  case Nil
  then show ?case by simp
next
  case (Cons x xs)
  obtain opt vs where x: "x = (opt, vs)" by (cases x)
  from Cons.prems x obtain ns1 where a: "take_action_hd w ns (opt, vs) = Inr ns1"
    and b: "parse_args (take_action_hd w) ns1 xs = Inr ns'"
    by (auto simp del: take_action_hd.simps split: sum.splits)
  from take_action_hd_keeps [OF a] Cons.IH [OF b] x show ?case
    by (auto simp del: take_action_hd.simps)
qed

text \<open>
  Claim C7. In each script, an option that does not occur on the command line has its declared
  default in the parsed arguments: date \<^verbatim>\<open>01-22-2025\<close>, cycle \<^verbatim>\<open>12\<close>, levels
  1, 2, 4, 8, 16, 32, 64, 128 and output \<^verbatim>\<open>gefs_plot.jpg\<close> in all three, and variable
  \<^verbatim>\<open>sfc_tot_pm25\<close> in the surface script, \<^verbatim>\<open>totAOD550\<close> in the entire-atmosphere script and
  \<^verbatim>\<open>sfc_tot_pm25\<close> in the half-degree script. With an empty command line parsing succeeds
  and returns exactly the defaults.
\<close>

theorem defaults_when_omitted:
  "parse_arguments_sfc w [] =
     Inr \<lparr>args_date = ''01-22-2025'', args_cycle = ''12'', args_variable = ''sfc_tot_pm25'',
          args_levels = [1, 2, 4, 8, 16, 32, 64, 128], args_output = ''gefs_plot.jpg''\<rparr> \<and>
   parse_arguments_ea w [] =
     Inr \<lparr>args_date = ''01-22-2025'', args_cycle = ''12'', args_variable = ''totAOD550'',
          args_levels = [1, 2, 4, 8, 16, 32, 64, 128], args_output = ''gefs_plot.jpg''\<rparr> \<and>
   parse_arguments_hd w [] =
     Inr \<lparr>args_date = ''01-22-2025'', args_cycle = ''12'', args_variable = ''sfc_tot_pm25'',
          args_levels = [1, 2, 4, 8, 16, 32, 64, 128], args_output = ''gefs_plot.jpg'',
          args_model_level = 1\<rparr> \<and>
   (parse_arguments_sfc w argv = Inr args_sfc \<longrightarrow>
      (''--date'' \<notin> fst ` set argv \<longrightarrow> args_date args_sfc = ''01-22-2025'') \<and>
      (''--cycle'' \<notin> fst ` set argv \<longrightarrow> args_cycle args_sfc = ''12'') \<and>
      (''--variable'' \<notin> fst ` set argv \<longrightarrow> args_variable args_sfc = ''sfc_tot_pm25'') \<and>
      (''--levels'' \<notin> fst ` set argv \<longrightarrow> args_levels args_sfc = [1, 2, 4, 8, 16, 32, 64, 128]) \<and>
      (''--output'' \<notin> fst ` set argv \<longrightarrow> args_output args_sfc = ''gefs_plot.jpg'')) \<and>
   (parse_arguments_ea w argv = Inr args_ea \<longrightarrow>
      (''--date'' \<notin> fst ` set argv \<longrightarrow> args_date args_ea = ''01-22-2025'') \<and>
      (''--cycle'' \<notin> fst ` set argv \<longrightarrow> args_cycle args_ea = ''12'') \<and>
      (''--variable'' \<notin> fst ` set argv \<longrightarrow> args_variable args_ea = ''totAOD550'') \<and>
      (''--levels'' \<notin> fst ` set argv \<longrightarrow> args_levels args_ea = [1, 2, 4, 8, 16, 32, 64, 128]) \<and>
      (''--output'' \<notin> fst ` set argv \<longrightarrow> args_output args_ea = ''gefs_plot.jpg'')) \<and>
   (parse_arguments_hd w argv = Inr args_hd \<longrightarrow>
      (''--date'' \<notin> fst ` set argv \<longrightarrow> args_date args_hd = ''01-22-2025'') \<and>
      (''--cycle'' \<notin> fst ` set argv \<longrightarrow> args_cycle args_hd = ''12'') \<and>
      (''--variable'' \<notin> fst ` set argv \<longrightarrow> args_variable args_hd = ''sfc_tot_pm25'') \<and>
      (''--levels'' \<notin> fst ` set argv \<longrightarrow> args_levels args_hd = [1, 2, 4, 8, 16, 32, 64, 128]) \<and>
      (''--output'' \<notin> fst ` set argv \<longrightarrow> args_output args_hd = ''gefs_plot.jpg''))"
proof -
  have e: "parse_arguments_sfc w [] =
     Inr \<lparr>args_date = ''01-22-2025'', args_cycle = ''12'', args_variable = ''sfc_tot_pm25'',
          args_levels = [1, 2, 4, 8, 16, 32, 64, 128], args_output = ''gefs_plot.jpg''\<rparr> \<and>
   parse_arguments_ea w [] =
     Inr \<lparr>args_date = ''01-22-2025'', args_cycle = ''12'', args_variable = ''totAOD550'',
          args_levels = [1, 2, 4, 8, 16, 32, 64, 128], args_output = ''gefs_plot.jpg''\<rparr> \<and>
   parse_arguments_hd w [] =
     Inr \<lparr>args_date = ''01-22-2025'', args_cycle = ''12'', args_variable = ''sfc_tot_pm25'',
          args_levels = [1, 2, 4, 8, 16, 32, 64, 128], args_output = ''gefs_plot.jpg'',
          args_model_level = 1\<rparr>"
    by (simp add: parse_arguments_sfc_def parse_arguments_ea_def parse_arguments_hd_def)
  have s: "parse_arguments_sfc w argv = Inr args_sfc \<longrightarrow>
      (''--date'' \<notin> fst ` set argv \<longrightarrow> args_date args_sfc = ''01-22-2025'') \<and>
      (''--cycle'' \<notin> fst ` set argv \<longrightarrow> args_cycle args_sfc = ''12'') \<and>
      (''--variable'' \<notin> fst ` set argv \<longrightarrow> args_variable args_sfc = ''sfc_tot_pm25'') \<and>
      (''--levels'' \<notin> fst ` set argv \<longrightarrow> args_levels args_sfc = [1, 2, 4, 8, 16, 32, 64, 128]) \<and>
      (''--output'' \<notin> fst ` set argv \<longrightarrow> args_output args_sfc = ''gefs_plot.jpg'')"
  proof
    assume "parse_arguments_sfc w argv = Inr args_sfc"
    from parse_keeps [OF this [unfolded parse_arguments_sfc_def]] show
      "(''--date'' \<notin> fst ` set argv \<longrightarrow> args_date args_sfc = ''01-22-2025'') \<and>
      (''--cycle'' \<notin> fst ` set argv \<longrightarrow> args_cycle args_sfc = ''12'') \<and>
      (''--variable'' \<notin> fst ` set argv \<longrightarrow> args_variable args_sfc = ''sfc_tot_pm25'') \<and>
      (''--levels'' \<notin> fst ` set argv \<longrightarrow> args_levels args_sfc = [1, 2, 4, 8, 16, 32, 64, 128]) \<and>
      (''--output'' \<notin> fst ` set argv \<longrightarrow> args_output args_sfc = ''gefs_plot.jpg'')"
      by simp
  qed
  have a: "parse_arguments_ea w argv = Inr args_ea \<longrightarrow>
      (''--date'' \<notin> fst ` set argv \<longrightarrow> args_date args_ea = ''01-22-2025'') \<and>
      (''--cycle'' \<notin> fst ` set argv \<longrightarrow> args_cycle args_ea = ''12'') \<and>
      (''--variable'' \<notin> fst ` set argv \<longrightarrow> args_variable args_ea = ''totAOD550'') \<and>
      (''--levels'' \<notin> fst ` set argv \<longrightarrow> args_levels args_ea = [1, 2, 4, 8, 16, 32, 64, 128]) \<and>
      (''--output'' \<notin> fst ` set argv \<longrightarrow> args_output args_ea = ''gefs_plot.jpg'')"
  proof
    assume "parse_arguments_ea w argv = Inr args_ea"
    from parse_keeps [OF this [unfolded parse_arguments_ea_def]] show
      "(''--date'' \<notin> fst ` set argv \<longrightarrow> args_date args_ea = ''01-22-2025'') \<and>
      (''--cycle'' \<notin> fst ` set argv \<longrightarrow> args_cycle args_ea = ''12'') \<and>
      (''--variable'' \<notin> fst ` set argv \<longrightarrow> args_variable args_ea = ''totAOD550'') \<and>
      (''--levels'' \<notin> fst ` set argv \<longrightarrow> args_levels args_ea = [1, 2, 4, 8, 16, 32, 64, 128]) \<and>
      (''--output'' \<notin> fst ` set argv \<longrightarrow> args_output args_ea = ''gefs_plot.jpg'')"
      by simp
  qed
  have h: "parse_arguments_hd w argv = Inr args_hd \<longrightarrow>
      (''--date'' \<notin> fst ` set argv \<longrightarrow> args_date args_hd = ''01-22-2025'') \<and>
      (''--cycle'' \<notin> fst ` set argv \<longrightarrow> args_cycle args_hd = ''12'') \<and>
      (''--variable'' \<notin> fst ` set argv \<longrightarrow> args_variable args_hd = ''sfc_tot_pm25'') \<and>
      (''--levels'' \<notin> fst ` set argv \<longrightarrow> args_levels args_hd = [1, 2, 4, 8, 16, 32, 64, 128]) \<and>
      (''--output'' \<notin> fst ` set argv \<longrightarrow> args_output args_hd = ''gefs_plot.jpg'')"
  proof
    assume "parse_arguments_hd w argv = Inr args_hd"
    from parse_keeps_hd [OF this [unfolded parse_arguments_hd_def]] show
      "(''--date'' \<notin> fst ` set argv \<longrightarrow> args_date args_hd = ''01-22-2025'') \<and>
      (''--cycle'' \<notin> fst ` set argv \<longrightarrow> args_cycle args_hd = ''12'') \<and>
      (''--variable'' \<notin> fst ` set argv \<longrightarrow> args_variable args_hd = ''sfc_tot_pm25'') \<and>
      (''--levels'' \<notin> fst ` set argv \<longrightarrow> args_levels args_hd = [1, 2, 4, 8, 16, 32, 64, 128]) \<and>
      (''--output'' \<notin> fst ` set argv \<longrightarrow> args_output args_hd = ''gefs_plot.jpg'')"
      by simp
  qed
  from e s a h show ?thesis by blast
qed

theorem defaults_when_omitted_witness:
  "parse_arguments_ea sample_world [(''--cycle'', [''06''])] =
     Inr \<lparr>args_date = ''01-22-2025'', args_cycle = ''06'', args_variable = ''totAOD550'',
          args_levels = [1, 2, 4, 8, 16, 32, 64, 128], args_output = ''gefs_plot.jpg''\<rparr> \<and>
   ''--date'' \<notin> fst ` set [(''--cycle'', [''06''])] \<and>
   ''--variable'' \<notin> fst ` set [(''--cycle'', [''06''])] \<and>
   ''--levels'' \<notin> fst ` set [(''--cycle'', [''06''])] \<and>
   ''--output'' \<notin> fst ` set [(''--cycle'', [''06''])] \<and>
   parse_arguments_sfc sample_world [] =
     Inr \<lparr>args_date = ''01-22-2025'', args_cycle = ''12'', args_variable = ''sfc_tot_pm25'',
          args_levels = [1, 2, 4, 8, 16, 32, 64, 128], args_output = ''gefs_plot.jpg''\<rparr>"
proof -
  have p: "parse_arguments_ea sample_world [(''--cycle'', [''06''])] =
     Inr \<lparr>args_date = ''01-22-2025'', args_cycle = ''06'', args_variable = ''totAOD550'',
          args_levels = [1, 2, 4, 8, 16, 32, 64, 128], args_output = ''gefs_plot.jpg''\<rparr>"
    by (simp add: parse_arguments_ea_def one_argument_def is_argument_def)
  from defaults_when_omitted [where w = sample_world and argv = "[(''--cycle'', [''06''])]"
     and args_ea = "\<lparr>args_date = ''01-22-2025'', args_cycle = ''06'', args_variable = ''totAOD550'',
          args_levels = [1, 2, 4, 8, 16, 32, 64, 128], args_output = ''gefs_plot.jpg''\<rparr>"] p
  show ?thesis by simp
qed

subsection \<open>Contour levels\<close>

lemma rendered_levels_append:
  "rendered_levels (t1 @ t2) = rendered_levels t1 @ rendered_levels t2"
  by (induction t1 rule: rendered_levels.induct) simp_all

lemma fetch_renders_nothing:
  "rendered_levels (fst (get_gefs_data_sfc w date_str cycle variable)) = []"
  "rendered_levels (fst (get_gefs_data_ea w date_str cycle variable)) = []"
  "rendered_levels (fst (get_gefs_data_hd w date_str cycle variable)) = []"
  by (simp_all add: get_gefs_data_sfc_def get_gefs_data_ea_def get_gefs_data_hd_def Let_def
      split: sum.split)

lemma create_plot_levels:
  "rendered_levels (fst (create_plot_sfc w ds variable levels output_file)) \<in> {[], [levels]}"
  "rendered_levels (fst (create_plot_ea w ds variable levels output_file)) \<in> {[], [levels]}"
  "rendered_levels (fst (create_plot_hd w ds variable model_level levels output_file)) \<in> {[], [levels]}"
  by (simp_all add: create_plot_sfc_def create_plot_ea_def create_plot_hd_def Let_def
      split: option.split sum.split)

lemma main_sfc_levels:
  assumes "parse_arguments_sfc w argv = Inr args"
  shows "rendered_levels (fst (main_sfc w argv)) \<in> {[], [args_levels args]}"
proof -
  obtain t1 r where g: "get_gefs_data_sfc w (args_date args) (args_cycle args) (args_variable args) = (t1, r)"
    by (cases "get_gefs_data_sfc w (args_date args) (args_cycle args) (args_variable args)")
  from fetch_renders_nothing(1) [of w "args_date args" "args_cycle args" "args_variable args"] g
  have t1: "rendered_levels t1 = []" by simp
  show ?thesis
  proof (cases r)
    case (Inl e)
    with assms g t1 show ?thesis by (simp add: main_sfc_def)
  next
    case (Inr ds)
    obtain t2 r2 where c: "create_plot_sfc w ds (args_variable args) (args_levels args) (args_output args) = (t2, r2)"
      by (cases "create_plot_sfc w ds (args_variable args) (args_levels args) (args_output args)")
    from create_plot_levels(1) [of w ds "args_variable args" "args_levels args" "args_output args"] c
    have "rendered_levels t2 \<in> {[], [args_levels args]}" by simp
    with assms g Inr c t1 show ?thesis
      by (simp add: main_sfc_def rendered_levels_append)
  qed
qed

lemma main_ea_levels:
  assumes "parse_arguments_ea w argv = Inr args"
  shows "rendered_levels (fst (main_ea w argv)) \<in> {[], [args_levels args]}"
proof -
  obtain t1 r where g: "get_gefs_data_ea w (args_date args) (args_cycle args) (args_variable args) = (t1, r)"
    by (cases "get_gefs_data_ea w (args_date args) (args_cycle args) (args_variable args)")
  from fetch_renders_nothing(2) [of w "args_date args" "args_cycle args" "args_variable args"] g
  have t1: "rendered_levels t1 = []" by simp
  show ?thesis
  proof (cases r)
    case (Inl e)
    with assms g t1 show ?thesis by (simp add: main_ea_def)
  next
    case (Inr ds)
    obtain t2 r2 where c: "create_plot_ea w ds (args_variable args) (args_levels args) (args_output args) = (t2, r2)"
      by (cases "create_plot_ea w ds (args_variable args) (args_levels args) (args_output args)")
    from create_plot_levels(2) [of w ds "args_variable args" "args_levels args" "args_output args"] c
    have "rendered_levels t2 \<in> {[], [args_levels args]}" by simp
    with assms g Inr c t1 show ?thesis
      by (simp add: main_ea_def rendered_levels_append)
  qed
qed

lemma main_hd_levels:
  assumes "parse_arguments_hd w argv = Inr args"
  shows "rendered_levels (fst (main_hd w argv)) \<in> {[], [args_levels args]}"
proof -
  obtain t1 r where g: "get_gefs_data_hd w (args_date args) (args_cycle args) (args_variable args) = (t1, r)"
    by (cases "get_gefs_data_hd w (args_date args) (args_cycle args) (args_variable args)")
  from fetch_renders_nothing(3) [of w "args_date args" "args_cycle args" "args_variable args"] g
  have t1: "rendered_levels t1 = []" by simp
  show ?thesis
  proof (cases r)
    case (Inl e)
    with assms g t1 show ?thesis by (simp add: main_hd_def)
  next
    case (Inr ds)
    obtain t2 r2 where c: "create_plot_hd w ds (args_variable args) (args_model_level args)
        (args_levels args) (args_output args) = (t2, r2)"
      by (cases "create_plot_hd w ds (args_variable args) (args_model_level args)
        (args_levels args) (args_output args)")
    from create_plot_levels(3) [of w ds "args_variable args" "args_model_level args"
        "args_levels args" "args_output args"] c
    have "rendered_levels t2 \<in> {[], [args_levels args]}" by simp
    with assms g Inr c t1 show ?thesis
      by (simp add: main_hd_def rendered_levels_append)
  qed
qed

lemma levels_kept_to_end:
  assumes conv: "map (py_float w) vs = map Some xs"
    and post: "''--levels'' \<notin> fst ` set post"
    and p: "parse_args (take_action w opts) ns (pre @ (''--levels'', vs) # post) = Inr ns'"
  shows "args_levels ns' = xs"
proof -
  from p obtain ns1 where "parse_args (take_action w opts) ns1 ((''--levels'', vs) # post) = Inr ns'"
    by (auto simp: parse_args_append split: sum.splits)
  then obtain ns2 where a: "take_action w opts ns1 (''--levels'', vs) = Inr ns2"
    and b: "parse_args (take_action w opts) ns2 post = Inr ns'"
    by (auto simp del: take_action.simps split: sum.splits)
  from levels_stored_rev [OF a conv] parse_keeps [OF b] post show ?thesis by simp
qed

lemma levels_kept_to_end_hd:
  assumes conv: "map (py_float w) vs = map Some xs"
    and post: "''--levels'' \<notin> fst ` set post"
    and p: "parse_args (take_action_hd w) ns (pre @ (''--levels'', vs) # post) = Inr ns'"
  shows "args_levels ns' = xs"
proof -
  from p obtain ns1 where "parse_args (take_action_hd w) ns1 ((''--levels'', vs) # post) = Inr ns'"
    by (auto simp: parse_args_append split: sum.splits)
  then obtain ns2 where a: "take_action_hd w ns1 (''--levels'', vs) = Inr ns2"
    and b: "parse_args (take_action_hd w) ns2 post = Inr ns'"
    by (auto simp del: take_action_hd.simps split: sum.splits)
  from a have "take_action w option_strings_hd ns1 (''--levels'', vs) = Inr ns2"
    by (simp del: take_action.simps)
  from levels_stored_rev [OF this conv] parse_keeps_hd [OF b] post show ?thesis by simp
qed

text \<open>
  Claim C2, as stated, fails: no \<^verbatim>\<open>add_argument\<close> call and no other line of any script
  compares the levels with one another. The command line \<^verbatim>\<open>--levels 2 1\<close> is not strictly
  increasing and is accepted by \<^verbatim>\<open>parse_arguments\<close>.
\<close>

theorem unordered_levels_accepted:
  "\<not> sorted_wrt (<) [2, 1 :: rat] \<and>
   parse_arguments_sfc sample_world [(''--levels'', [''2'', ''1''])] =
     Inr \<lparr>args_date = ''01-22-2025'', args_cycle = ''12'', args_variable = ''sfc_tot_pm25'',
          args_levels = [2, 1], args_output = ''gefs_plot.jpg''\<rparr> \<and>
   parse_arguments_hd sample_world [(''--levels'', [''2'', ''1''])] =
     Inr \<lparr>args_date = ''01-22-2025'', args_cycle = ''12'', args_variable = ''sfc_tot_pm25'',
          args_levels = [2, 1], args_output = ''gefs_plot.jpg'', args_model_level = 1\<rparr>"
  by (simp add: parse_arguments_sfc_def parse_arguments_hd_def float_arguments_def
      is_argument_def sample_world_def float_dec_def is_digit_def nat_of_digits_def digit_val_def)

text \<open>
  Claim C2, amended. \<^verbatim>\<open>parse_arguments\<close> does not check the order of the levels: in each
  script every non-empty sequence of argument strings behind \<^verbatim>\<open>--levels\<close> (strings that
  argparse does not take for an option) that \<^verbatim>\<open>float\<close> converts is accepted, increasing or
  not, and the converted values are stored in the order given, duplicates included; after
  any successful parse the stored levels are those of the last \<^verbatim>\<open>--levels\<close> occurrence, as
  given. \<^verbatim>\<open>main\<close> hands the stored sequence to \<^verbatim>\<open>quick_imshow\<close> as it is: whenever the
  renderer is called, its \<^verbatim>\<open>levels\<close> argument is the parsed sequence, neither sorted nor
  de-duplicated.
\<close>

theorem levels_passed_unchanged:
  "(vs \<noteq> [] \<and> (\<forall>v\<in>set vs. is_argument option_strings v) \<and>
    map (py_float w) vs = map Some xs \<longrightarrow>
      parse_arguments_sfc w [(''--levels'', vs)] =
        Inr \<lparr>args_date = ''01-22-2025'', args_cycle = ''12'', args_variable = ''sfc_tot_pm25'',
             args_levels = xs, args_output = ''gefs_plot.jpg''\<rparr> \<and>
      parse_arguments_ea w [(''--levels'', vs)] =
        Inr \<lparr>args_date = ''01-22-2025'', args_cycle = ''12'', args_variable = ''totAOD550'',
             args_levels = xs, args_output = ''gefs_plot.jpg''\<rparr>) \<and>
   (vs \<noteq> [] \<and> (\<forall>v\<in>set vs. is_argument option_strings_hd v) \<and>
    map (py_float w) vs = map Some xs \<longrightarrow>
      parse_arguments_hd w [(''--levels'', vs)] =
        Inr \<lparr>args_date = ''01-22-2025'', args_cycle = ''12'', args_variable = ''sfc_tot_pm25'',
             args_levels = xs, args_output = ''gefs_plot.jpg'', args_model_level = 1\<rparr>) \<and>
   (map (py_float w) vs = map Some xs \<and> ''--levels'' \<notin> fst ` set post \<longrightarrow>
      (parse_arguments_sfc w (pre @ (''--levels'', vs) # post) = Inr args_sfc \<longrightarrow>
         args_levels args_sfc = xs) \<and>
      (parse_arguments_ea w (pre @ (''--levels'', vs) # post) = Inr args_ea \<longrightarrow>
         args_levels args_ea = xs) \<and>
      (parse_arguments_hd w (pre @ (''--levels'', vs) # post) = Inr args_hd \<longrightarrow>
         args_levels args_hd = xs)) \<and>
   (parse_arguments_sfc w argv = Inr parsed_sfc \<longrightarrow>
      rendered_levels (fst (main_sfc w argv)) \<in> {[], [args_levels parsed_sfc]}) \<and>
   (parse_arguments_ea w argv = Inr parsed_ea \<longrightarrow>
      rendered_levels (fst (main_ea w argv)) \<in> {[], [args_levels parsed_ea]}) \<and>
   (parse_arguments_hd w argv = Inr parsed_hd \<longrightarrow>
      rendered_levels (fst (main_hd w argv)) \<in> {[], [args_levels parsed_hd]})"
proof (intro conjI impI)
  assume a: "vs \<noteq> [] \<and> (\<forall>v\<in>set vs. is_argument option_strings v) \<and>
    map (py_float w) vs = map Some xs"
  then have st: "take_action w option_strings ns (''--levels'', vs) = Inr (ns\<lparr>args_levels := xs\<rparr>)"
    for ns :: "'a namespace"
    by (simp add: levels_stored del: take_action.simps)
  show "parse_arguments_sfc w [(''--levels'', vs)] =
        Inr \<lparr>args_date = ''01-22-2025'', args_cycle = ''12'', args_variable = ''sfc_tot_pm25'',
             args_levels = xs, args_output = ''gefs_plot.jpg''\<rparr>"
    by (simp add: parse_arguments_sfc_def st del: take_action.simps)
  show "parse_arguments_ea w [(''--levels'', vs)] =
        Inr \<lparr>args_date = ''01-22-2025'', args_cycle = ''12'', args_variable = ''totAOD550'',
             args_levels = xs, args_output = ''gefs_plot.jpg''\<rparr>"
    by (simp add: parse_arguments_ea_def st del: take_action.simps)
next
  assume a: "vs \<noteq> [] \<and> (\<forall>v\<in>set vs. is_argument option_strings_hd v) \<and>
    map (py_float w) vs = map Some xs"
  then have sth: "take_action w option_strings_hd ns (''--levels'', vs) = Inr (ns\<lparr>args_levels := xs\<rparr>)"
    for ns :: "'a namespace_hd"
    by (simp add: levels_stored del: take_action.simps)
  have h: "take_action_hd w ns (''--levels'', vs) = Inr (ns\<lparr>args_levels := xs\<rparr>)" for ns
    using sth [of ns] by (simp del: take_action.simps)
  show "parse_arguments_hd w [(''--levels'', vs)] =
        Inr \<lparr>args_date = ''01-22-2025'', args_cycle = ''12'', args_variable = ''sfc_tot_pm25'',
             args_levels = xs, args_output = ''gefs_plot.jpg'', args_model_level = 1\<rparr>"
    by (simp add: parse_arguments_hd_def h del: take_action_hd.simps)
next
  assume "map (py_float w) vs = map Some xs \<and> ''--levels'' \<notin> fst ` set post"
    and "parse_arguments_sfc w (pre @ (''--levels'', vs) # post) = Inr args_sfc"
  then show "args_levels args_sfc = xs"
    unfolding parse_arguments_sfc_def by (blast intro: levels_kept_to_end)
next
  assume "map (py_float w) vs = map Some xs \<and> ''--levels'' \<notin> fst ` set post"
    and "parse_arguments_ea w (pre @ (''--levels'', vs) # post) = Inr args_ea"
  then show "args_levels args_ea = xs"
    unfolding parse_arguments_ea_def by (blast intro: levels_kept_to_end)
next
  assume "map (py_float w) vs = map Some xs \<and> ''--levels'' \<notin> fst ` set post"
    and "parse_arguments_hd w (pre @ (''--levels'', vs) # post) = Inr args_hd"
  then show "args_levels args_hd = xs"
    unfolding parse_arguments_hd_def by (blast intro: levels_kept_to_end_hd)
next
  assume "parse_arguments_sfc w argv = Inr parsed_sfc"
  then show "rendered_levels (fst (main_sfc w argv)) \<in> {[], [args_levels parsed_sfc]}"
    by (rule main_sfc_levels)
next
  assume "parse_arguments_ea w argv = Inr parsed_ea"
  then show "rendered_levels (fst (main_ea w argv)) \<in> {[], [args_levels parsed_ea]}"
    by (rule main_ea_levels)
next
  assume "parse_arguments_hd w argv = Inr parsed_hd"
  then show "rendered_levels (fst (main_hd w argv)) \<in> {[], [args_levels parsed_hd]}"
    by (rule main_hd_levels)
qed

theorem levels_passed_unchanged_witness:
  "[''2'', ''1'', ''1''] \<noteq> [] \<and>
   list_all (is_argument option_strings) [''2'', ''1'', ''1''] \<and>
   list_all (is_argument option_strings_hd) [''2'', ''1'', ''1''] \<and>
   map (py_float sample_world) [''2'', ''1'', ''1''] = map Some [2, 1, 1] \<and>
   parse_arguments_sfc sample_world [(''--levels'', [''2'', ''1'', ''1''])] =
     Inr \<lparr>args_date = ''01-22-2025'', args_cycle = ''12'', args_variable = ''sfc_tot_pm25'',
          args_levels = [2, 1, 1], args_output = ''gefs_plot.jpg''\<rparr> \<and>
   parse_arguments_hd sample_world [(''--levels'', [''2'', ''1'', ''1''])] =
     Inr \<lparr>args_date = ''01-22-2025'', args_cycle = ''12'', args_variable = ''sfc_tot_pm25'',
          args_levels = [2, 1, 1], args_output = ''gefs_plot.jpg'', args_model_level = 1\<rparr> \<and>
   rendered_levels (fst (main_sfc sample_world [(''--levels'', [''2'', ''1'', ''1''])]))
     \<in> {[], [[2, 1, 1]]} \<and>
   rendered_levels (fst (main_sfc sample_world [(''--levels'', [''2'', ''1'', ''1''])]))
     = [[2, 1, 1]] \<and>
   ''--levels'' \<notin> fst ` set [(''--cycle'', [''06''])] \<and>
   parse_arguments_hd sample_world
       ([(''--levels'', [''5''])] @ (''--levels'', [''2'', ''1'', ''1'']) # [(''--cycle'', [''06''])]) =
     Inr \<lparr>args_date = ''01-22-2025'', args_cycle = ''06'', args_variable = ''sfc_tot_pm25'',
          args_levels = [2, 1, 1], args_output = ''gefs_plot.jpg'', args_model_level = 1\<rparr>"
proof -
  have c: "map (py_float sample_world) [''2'', ''1'', ''1''] = map Some [2, 1, 1]"
    by (simp add: sample_world_def float_dec_def is_digit_def nat_of_digits_def digit_val_def)
  have a: "\<forall>v\<in>set [''2'', ''1'', ''1'']. is_argument option_strings v"
    by (simp add: is_argument_def)
  have ah: "\<forall>v\<in>set [''2'', ''1'', ''1'']. is_argument option_strings_hd v"
    by (simp add: is_argument_def)
  note t = levels_passed_unchanged [where w = sample_world and vs = "[''2'', ''1'', ''1'']"
      and xs = "[2, 1, 1]" and argv = "[(''--levels'', [''2'', ''1'', ''1''])]"
      and parsed_sfc = "\<lparr>args_date = ''01-22-2025'', args_cycle = ''12'',
          args_variable = ''sfc_tot_pm25'', args_levels = [2, 1, 1],
          args_output = ''gefs_plot.jpg''\<rparr>"]
  from t c a have p: "parse_arguments_sfc sample_world [(''--levels'', [''2'', ''1'', ''1''])] =
     Inr \<lparr>args_date = ''01-22-2025'', args_cycle = ''12'', args_variable = ''sfc_tot_pm25'',
          args_levels = [2, 1, 1], args_output = ''gefs_plot.jpg''\<rparr>"
    by simp
  from t c ah have ph: "parse_arguments_hd sample_world [(''--levels'', [''2'', ''1'', ''1''])] =
     Inr \<lparr>args_date = ''01-22-2025'', args_cycle = ''12'', args_variable = ''sfc_tot_pm25'',
          args_levels = [2, 1, 1], args_output = ''gefs_plot.jpg'', args_model_level = 1\<rparr>"
    by simp
  from t p have "rendered_levels (fst (main_sfc sample_world [(''--levels'', [''2'', ''1'', ''1''])]))
     \<in> {[], [[2, 1, 1]]}"
    by simp
  moreover have "rendered_levels (fst (main_sfc sample_world [(''--levels'', [''2'', ''1'', ''1''])]))
     = [[2, 1, 1]]"
    unfolding main_sfc_def p
    by (simp add: get_gefs_data_sfc_def create_plot_sfc_def reads_month_first_example [simplified]
        sample_world_def sample_dataset_def Let_def)
  moreover have "parse_arguments_hd sample_world
       ([(''--levels'', [''5''])] @ (''--levels'', [''2'', ''1'', ''1'']) # [(''--cycle'', [''06''])]) =
     Inr \<lparr>args_date = ''01-22-2025'', args_cycle = ''06'', args_variable = ''sfc_tot_pm25'',
          args_levels = [2, 1, 1], args_output = ''gefs_plot.jpg'', args_model_level = 1\<rparr>"
  proof -
    have f: "map (py_float sample_world) [''5''] = map Some [5]"
      by (simp add: sample_world_def float_dec_def is_digit_def nat_of_digits_def digit_val_def)
    obtain r where r: "parse_arguments_hd sample_world
       ([(''--levels'', [''5''])] @ (''--levels'', [''2'', ''1'', ''1'']) # [(''--cycle'', [''06''])]) = r"
      by simp
    have shape: "r = Inr \<lparr>args_date = ''01-22-2025'', args_cycle = ''06'',
        args_variable = ''sfc_tot_pm25'', args_levels = args_levels (projr r),
        args_output = ''gefs_plot.jpg'', args_model_level = 1\<rparr>"
      using r [symmetric] c f
      by (simp add: parse_arguments_hd_def float_arguments_def one_argument_def is_argument_def
          convert_all_ok)
    then obtain parsed where parsed: "r = Inr parsed"
      by blast
    from levels_passed_unchanged [where w = sample_world and vs = "[''2'', ''1'', ''1'']"
        and xs = "[2, 1, 1]" and pre = "[(''--levels'', [''5''])]"
        and post = "[(''--cycle'', [''06''])]" and args_hd = parsed] c r parsed
    have "args_levels parsed = [2, 1, 1]"
      by simp
    with shape parsed r show ?thesis by simp
  qed
  ultimately show ?thesis using c a ah p ph by (simp add: list_all_iff)
qed

end
